theory Spec2Isabelle
  imports Complex_Main
begin

section \<open>Python values\<close>

text \<open>
  A Python \<^verbatim>\<open>str\<close> is modelled as the list of its Unicode code points, so that
  \<^verbatim>\<open>len\<close> counts characters as Python does. \<open>str\<close> turns an ASCII literal into
  such a list; the rupee sign U+20B9 of the cost strings is the code point 8377.
\<close>

type_synonym pystr = "nat list"

definition str :: "string \<Rightarrow> pystr" where
  "str s = map of_char s"

definition rupee :: pystr where
  "rupee = [8377]"

text \<open>
  The exceptions the code can meet. \<open>ClientError\<close> stands for whatever the completion
  client raises (network, authentication, rate limit), \<open>ValidationError\<close> for a
  pydantic model that rejects its arguments, \<open>HTTPException\<close> carries the status
  code and the detail text. All of them are subclasses of Python's \<^verbatim>\<open>Exception\<close>.
\<close>

datatype exn =
    KeyError
  | TypeError
  | AttributeError
  | ValueError
  | OverflowError
  | ZeroDivisionError
  | IndexError
  | ValidationError
  | JSONDecodeError
  | ClientError nat
  | HTTPException nat pystr

definition bind_exn :: "exn + 'a \<Rightarrow> ('a \<Rightarrow> exn + 'b) \<Rightarrow> exn + 'b" where
  "bind_exn m f = (case m of Inl e \<Rightarrow> Inl e | Inr x \<Rightarrow> f x)"

text \<open>
  The objects \<^verbatim>\<open>json.loads\<close> builds, which are also the objects the summary dict is
  made of. A dict is the list of its items in insertion order; a key is looked up
  from the front. A float is modelled by the real number it denotes: the values are
  finite and arithmetic on them is exact (the rounding of doubles is not modelled),
  but every exception that float conversion or division raises is.
\<close>

datatype pyval =
    PNone
  | PBool bool
  | PInt int
  | PFloat real
  | PStr pystr
  | PList "pyval list"
  | PDict "(pystr \<times> pyval) list"

section \<open>models.py\<close>

datatype SentimentType = POSITIVE | NEGATIVE | NEUTRAL

fun sentiment_value :: "SentimentType \<Rightarrow> pystr" where
  "sentiment_value POSITIVE = str ''positive''"
| "sentiment_value NEGATIVE = str ''negative''"
| "sentiment_value NEUTRAL = str ''neutral''"

record MessageRequest =
  req_message :: pystr
  req_customer_id :: "pystr option"
  req_agent_id :: "pystr option"
  req_timestamp :: "pystr option"

record CostPrediction =
  optimal_conversation_type :: pystr
  predicted_cost :: pystr
  cost_saved :: pystr
  cp_reasoning :: pystr

record ResponsePrediction =
  success_probability :: int
  best_response_time :: pystr
  escalation_probability :: int
  resolution_likelihood :: pystr

record TemplateRecommendation =
  primary_category :: pystr
  confidence :: int
  cost_impact :: pystr
  avoid_categories :: "pystr list"
  tr_reasoning :: pystr

record SentimentResponse =
  message :: pystr
  sentiment :: SentimentType
  confidence_score :: real
  reasoning :: pystr
  customer_id :: "pystr option"
  agent_id :: "pystr option"
  timestamp :: "pystr option"
  alert_level :: pystr
  churn_probability :: int
  revenue_risk :: pystr
  purchase_intent :: int
  customer_value_tier :: pystr
  retention_action :: pystr
  cost_prediction :: CostPrediction
  response_prediction :: ResponsePrediction
  template_recommendation :: TemplateRecommendation

section \<open>sentiment_analyzer.py: the fallback record\<close>

text \<open>
  \<^verbatim>\<open>_create_fallback_response(message, customer_id, agent_id, timestamp, error)\<close>.
  Every argument of the pydantic constructors is a Python value of the declared
  type, so no validation can fail here.
\<close>

definition create_fallback_response ::
  "pystr \<Rightarrow> pystr option \<Rightarrow> pystr option \<Rightarrow> pystr option \<Rightarrow> pystr \<Rightarrow> SentimentResponse" where
  "create_fallback_response msg cid aid ts err =
     \<lparr> message = msg,
       sentiment = NEUTRAL,
       confidence_score = 0,
       reasoning = str ''Analysis error: '' @ err,
       customer_id = cid,
       agent_id = aid,
       timestamp = ts,
       alert_level = str ''medium'',
       churn_probability = 50,
       revenue_risk = str ''at_risk'',
       purchase_intent = 25,
       customer_value_tier = str ''medium_value'',
       retention_action = str ''follow_up'',
       cost_prediction =
         \<lparr> optimal_conversation_type = str ''service'',
           predicted_cost = rupee @ str ''0.00'',
           cost_saved = rupee @ str ''0.00'',
           cp_reasoning = str ''Fallback to safe service category due to analysis error'' \<rparr>,
       response_prediction =
         \<lparr> success_probability = 50,
           best_response_time = str ''within_1_hour'',
           escalation_probability = 30,
           resolution_likelihood = str ''medium'' \<rparr>,
       template_recommendation =
         \<lparr> primary_category = str ''service'',
           confidence = 60,
           cost_impact = rupee @ str ''0.00'',
           avoid_categories = [str ''marketing''],
           tr_reasoning = str ''Safe fallback recommendation - use service category'' \<rparr> \<rparr>"

section \<open>The environment of the analyzer\<close>

text \<open>
  The two prompt templates are constants of the source; a formatted prompt is
  determined by the template and by the text put into its one variable.
\<close>

datatype prompt = SinglePrompt pystr | BulkPrompt pystr

text \<open>
  What the code calls and does not define. \<open>llm_invoke E n p\<close> is the content of the
  completion client's reply to prompt \<open>p\<close> when \<open>n\<close> requests were issued before it
  (the client need not answer the same prompt twice alike), or the exception it
  raises. \<open>json_loads\<close> is \<^verbatim>\<open>json.loads\<close>; \<open>float_of_str\<close> and \<open>int_of_str\<close> are
  Python's \<^verbatim>\<open>float\<close> and \<^verbatim>\<open>int\<close> on a string (\<open>None\<close> for ValueError);
  \<open>validate_str\<close>, \<open>validate_int\<close> and \<open>validate_str_list\<close> are pydantic's validation
  of a field declared \<^verbatim>\<open>str\<close>, \<^verbatim>\<open>int\<close> and \<^verbatim>\<open>List[str]\<close> (its coercions differ
  between pydantic versions); \<open>exn_str\<close> is \<^verbatim>\<open>str(e)\<close>; \<open>now_isoformat k\<close> is what
  \<^verbatim>\<open>datetime.now().isoformat()\<close> returns while message number \<open>k\<close> of an HTTP request
  is prepared.
\<close>

record env =
  llm_invoke :: "nat \<Rightarrow> prompt \<Rightarrow> exn + pystr"
  json_loads :: "pystr \<Rightarrow> exn + pyval"
  float_of_str :: "pystr \<Rightarrow> real option"
  int_of_str :: "pystr \<Rightarrow> int option"
  validate_str :: "pyval \<Rightarrow> pystr option"
  validate_int :: "pyval \<Rightarrow> int option"
  validate_str_list :: "pyval \<Rightarrow> pystr list option"
  exn_str :: "exn \<Rightarrow> pystr"
  now_isoformat :: "nat \<Rightarrow> pystr"

section \<open>Python built-ins used by the code\<close>

text \<open>\<^verbatim>\<open>str.isspace\<close> of one character, which is what \<^verbatim>\<open>str.strip()\<close> removes.\<close>

definition py_isspace :: "nat \<Rightarrow> bool" where
  "py_isspace c \<longleftrightarrow>
     (9 \<le> c \<and> c \<le> 13) \<or> (28 \<le> c \<and> c \<le> 32) \<or> c = 133 \<or> c = 160 \<or> c = 5760
     \<or> (8192 \<le> c \<and> c \<le> 8202) \<or> c = 8232 \<or> c = 8233 \<or> c = 8239 \<or> c = 8287
     \<or> c = 12288"

definition py_strip :: "pystr \<Rightarrow> pystr" where
  "py_strip s = rev (dropWhile py_isspace (rev (dropWhile py_isspace s)))"

text \<open>
  \<^verbatim>\<open>str.lower()\<close> on the letters A to Z. Python also lowers the cased letters outside
  ASCII, which are left as they are here: a string that holds one is, lowered by
  Python or by this function, none of the six strings the code looks up (the
  sentiment values and the alert levels), so the two agree on every lookup.
\<close>

definition py_lower :: "pystr \<Rightarrow> pystr" where
  "py_lower s = map (\<lambda>c. if 65 \<le> c \<and> c \<le> 90 then c + 32 else c) s"

text \<open>
  \<^verbatim>\<open>re.search(r'\{.*\}', text, re.DOTALL)\<close> and its sibling for brackets: the match
  starts at the first opening character and, the star being greedy and the dot
  matching newlines, ends at the last closing character after it.
\<close>

definition re_search :: "nat \<Rightarrow> nat \<Rightarrow> pystr \<Rightarrow> pystr option" where
  "re_search opn cls text =
     (case dropWhile (\<lambda>c. c \<noteq> opn) text of
        [] \<Rightarrow> None
      | c # body \<Rightarrow>
          (case rev (dropWhile (\<lambda>c. c \<noteq> cls) (rev body)) of
             [] \<Rightarrow> None
           | m \<Rightarrow> Some (c # m)))"

text \<open>\<^verbatim>\<open>obj[key]\<close> with a string key, \<^verbatim>\<open>obj[i]\<close> with an index, \<^verbatim>\<open>len(obj)\<close>.\<close>

fun py_getitem :: "pyval \<Rightarrow> pystr \<Rightarrow> exn + pyval" where
  "py_getitem (PDict kvs) k = (case map_of kvs k of None \<Rightarrow> Inl KeyError | Some v \<Rightarrow> Inr v)"
| "py_getitem _ k = Inl TypeError"

fun py_getitem_int :: "pyval \<Rightarrow> nat \<Rightarrow> exn + pyval" where
  "py_getitem_int (PList xs) i = (if i < length xs then Inr (xs ! i) else Inl IndexError)"
| "py_getitem_int (PStr s) i = (if i < length s then Inr (PStr [s ! i]) else Inl IndexError)"
| "py_getitem_int (PDict kvs) i = Inl KeyError"
| "py_getitem_int _ i = Inl TypeError"

fun py_len :: "pyval \<Rightarrow> exn + nat" where
  "py_len (PList xs) = Inr (length xs)"
| "py_len (PStr s) = Inr (length s)"
| "py_len (PDict kvs) = Inr (length (remdups (map fst kvs)))"
| "py_len _ = Inl TypeError"

text \<open>\<^verbatim>\<open>value.lower()\<close>: only a string has the method.\<close>

fun py_str_lower :: "pyval \<Rightarrow> exn + pystr" where
  "py_str_lower (PStr s) = Inr (py_lower s)"
| "py_str_lower _ = Inl AttributeError"

text \<open>
  An integer converts to a float, and an integer quotient is a float, only below
  this bound (the largest double is \<open>2 ^ 1024 - 2 ^ 971\<close>, and rounding is to nearest);
  from it on Python raises OverflowError.
\<close>

definition float_limit :: real where
  "float_limit = 2 ^ 1024 - 2 ^ 970"

fun py_float :: "env \<Rightarrow> pyval \<Rightarrow> exn + real" where
  "py_float E (PFloat x) = Inr x"
| "py_float E (PInt i) = (if float_limit \<le> \<bar>of_int i\<bar> then Inl OverflowError else Inr (of_int i))"
| "py_float E (PBool b) = Inr (if b then 1 else 0)"
| "py_float E (PStr s) = (case float_of_str E s of None \<Rightarrow> Inl ValueError | Some x \<Rightarrow> Inr x)"
| "py_float E _ = Inl TypeError"

text \<open>\<^verbatim>\<open>int(value)\<close>: a float is truncated towards zero.\<close>

fun py_int :: "env \<Rightarrow> pyval \<Rightarrow> exn + int" where
  "py_int E (PInt i) = Inr i"
| "py_int E (PFloat x) = Inr (if 0 \<le> x then \<lfloor>x\<rfloor> else \<lceil>x\<rceil>)"
| "py_int E (PBool b) = Inr (if b then 1 else 0)"
| "py_int E (PStr s) = (case int_of_str E s of None \<Rightarrow> Inl ValueError | Some i \<Rightarrow> Inr i)"
| "py_int E _ = Inl TypeError"

text \<open>\<^verbatim>\<open>a / b\<close> on two integers.\<close>

definition py_truediv :: "int \<Rightarrow> int \<Rightarrow> exn + real" where
  "py_truediv a b =
     (if b = 0 then Inl ZeroDivisionError
      else if float_limit \<le> \<bar>of_int a / of_int b\<bar> then Inl OverflowError
      else Inr (of_int a / of_int b))"

text \<open>\<^verbatim>\<open>x / b\<close> on a float and an integer.\<close>

definition py_fdiv :: "real \<Rightarrow> int \<Rightarrow> exn + real" where
  "py_fdiv x b = (if b = 0 then Inl ZeroDivisionError else Inr (x / of_int b))"

text \<open>\<^verbatim>\<open>round(x, n)\<close> on a float: to the nearest multiple of \<open>10 ^ - n\<close>, a tie to the even one.\<close>

definition round_half_even :: "real \<Rightarrow> int" where
  "round_half_even y =
     (let f = \<lfloor>y\<rfloor>; d = y - of_int f
      in if d < 1 / 2 then f else if 1 / 2 < d then f + 1 else if even f then f else f + 1)"

definition py_round :: "real \<Rightarrow> nat \<Rightarrow> real" where
  "py_round x n = of_int (round_half_even (x * 10 ^ n)) / 10 ^ n"

text \<open>\<^verbatim>\<open>str(n)\<close> of a natural number, and the format \<^verbatim>\<open>{x:.2f}\<close>.\<close>

fun decimal :: "nat \<Rightarrow> pystr" where
  "decimal n = (if n < 10 then [48 + n] else decimal (n div 10) @ [48 + n mod 10])"

declare decimal.simps [simp del]

definition format_2f :: "real \<Rightarrow> pystr" where
  "format_2f x =
     (let q = nat (round_half_even (\<bar>x\<bar> * 100))
      in (if x < 0 then str ''-'' else []) @ decimal (q div 100) @ str ''.''
         @ [48 + (q mod 100) div 10, 48 + q mod 10])"

text \<open>\<^verbatim>\<open>sub in s\<close> on strings.\<close>

fun py_in :: "pystr \<Rightarrow> pystr \<Rightarrow> bool" where
  "py_in sub [] \<longleftrightarrow> sub = []"
| "py_in sub (c # cs) \<longleftrightarrow> take (length sub) (c # cs) = sub \<or> py_in sub cs"

section \<open>sentiment_analyzer.py: from the model's reply to a record\<close>

text \<open>
  \<^verbatim>\<open>SentimentType(s)\<close>: the enum member with value \<open>s\<close>, or ValueError.
\<close>

definition SentimentType_of :: "pystr \<Rightarrow> exn + SentimentType" where
  "SentimentType_of s =
     (if s = str ''positive'' then Inr POSITIVE
      else if s = str ''negative'' then Inr NEGATIVE
      else if s = str ''neutral'' then Inr NEUTRAL
      else Inl ValueError)"

text \<open>
  \<^verbatim>\<open>Model(**value)\<close>: the value must be a mapping (TypeError otherwise); pydantic then
  reads each declared field from the keyword arguments, ignores the others, and
  raises one ValidationError when a field is missing or does not validate.
\<close>

fun kwargs :: "pyval \<Rightarrow> exn + (pystr \<times> pyval) list" where
  "kwargs (PDict kvs) = Inr kvs"
| "kwargs _ = Inl TypeError"

definition validated :: "'a option \<Rightarrow> exn + 'a" where
  "validated v = (case v of None \<Rightarrow> Inl ValidationError | Some x \<Rightarrow> Inr x)"

definition new_CostPrediction :: "env \<Rightarrow> (pystr \<times> pyval) list \<Rightarrow> exn + CostPrediction" where
  "new_CostPrediction E kvs = validated (
     Option.bind (Option.bind (map_of kvs (str ''optimal_conversation_type'')) (validate_str E)) (\<lambda>a.
     Option.bind (Option.bind (map_of kvs (str ''predicted_cost'')) (validate_str E)) (\<lambda>b.
     Option.bind (Option.bind (map_of kvs (str ''cost_saved'')) (validate_str E)) (\<lambda>c.
     Option.bind (Option.bind (map_of kvs (str ''reasoning'')) (validate_str E)) (\<lambda>d.
     Some \<lparr> optimal_conversation_type = a, predicted_cost = b, cost_saved = c,
            cp_reasoning = d \<rparr>)))))"

definition new_ResponsePrediction :: "env \<Rightarrow> (pystr \<times> pyval) list \<Rightarrow> exn + ResponsePrediction" where
  "new_ResponsePrediction E kvs = validated (
     Option.bind (Option.bind (map_of kvs (str ''success_probability'')) (validate_int E)) (\<lambda>a.
     Option.bind (Option.bind (map_of kvs (str ''best_response_time'')) (validate_str E)) (\<lambda>b.
     Option.bind (Option.bind (map_of kvs (str ''escalation_probability'')) (validate_int E)) (\<lambda>c.
     Option.bind (Option.bind (map_of kvs (str ''resolution_likelihood'')) (validate_str E)) (\<lambda>d.
     Some \<lparr> success_probability = a, best_response_time = b, escalation_probability = c,
            resolution_likelihood = d \<rparr>)))))"

definition new_TemplateRecommendation ::
  "env \<Rightarrow> (pystr \<times> pyval) list \<Rightarrow> exn + TemplateRecommendation" where
  "new_TemplateRecommendation E kvs = validated (
     Option.bind (Option.bind (map_of kvs (str ''primary_category'')) (validate_str E)) (\<lambda>a.
     Option.bind (Option.bind (map_of kvs (str ''confidence'')) (validate_int E)) (\<lambda>b.
     Option.bind (Option.bind (map_of kvs (str ''cost_impact'')) (validate_str E)) (\<lambda>c.
     Option.bind (Option.bind (map_of kvs (str ''avoid_categories'')) (validate_str_list E)) (\<lambda>d.
     Option.bind (Option.bind (map_of kvs (str ''reasoning'')) (validate_str E)) (\<lambda>e.
     Some \<lparr> primary_category = a, confidence = b, cost_impact = c, avoid_categories = d,
            tr_reasoning = e \<rparr>))))))"

text \<open>
  The construction \<^verbatim>\<open>SentimentResponse(message=..., sentiment=SentimentType(
  parsed["sentiment"].lower()), confidence_score=float(parsed["confidence_score"]), ...)\<close>
  that \<^verbatim>\<open>analyze_message\<close> (lines 151 to 173) and \<^verbatim>\<open>_analyze_bulk_optimized\<close> (lines
  226 to 246) both spell out, with the same keys in the same order. Python evaluates
  the keyword arguments from first to last, so the first failing one decides the
  exception; the constructor then validates the four fields it was handed straight
  from the reply (the others already have their declared types). No argument is
  compared with a range, and the key \<^verbatim>\<open>message_index\<close> is never read.
\<close>

definition new_SentimentResponse ::
  "env \<Rightarrow> pystr \<Rightarrow> pystr option \<Rightarrow> pystr option \<Rightarrow> pystr option \<Rightarrow> pyval
     \<Rightarrow> exn + SentimentResponse" where
  "new_SentimentResponse E msg cid aid ts parsed =
     bind_exn (bind_exn (bind_exn (py_getitem parsed (str ''sentiment'')) py_str_lower)
                 SentimentType_of) (\<lambda>v_sentiment.
     bind_exn (bind_exn (py_getitem parsed (str ''confidence_score'')) (py_float E)) (\<lambda>v_confidence.
     bind_exn (py_getitem parsed (str ''reasoning'')) (\<lambda>v_reasoning.
     bind_exn (bind_exn (py_getitem parsed (str ''alert_level'')) py_str_lower) (\<lambda>v_alert.
     bind_exn (bind_exn (py_getitem parsed (str ''churn_probability'')) (py_int E)) (\<lambda>v_churn.
     bind_exn (py_getitem parsed (str ''revenue_risk'')) (\<lambda>v_risk.
     bind_exn (bind_exn (py_getitem parsed (str ''purchase_intent'')) (py_int E)) (\<lambda>v_intent.
     bind_exn (py_getitem parsed (str ''customer_value_tier'')) (\<lambda>v_tier.
     bind_exn (py_getitem parsed (str ''retention_action'')) (\<lambda>v_action.
     bind_exn (bind_exn (bind_exn (py_getitem parsed (str ''cost_prediction'')) kwargs)
                 (new_CostPrediction E)) (\<lambda>v_cost.
     bind_exn (bind_exn (bind_exn (py_getitem parsed (str ''response_prediction'')) kwargs)
                 (new_ResponsePrediction E)) (\<lambda>v_response.
     bind_exn (bind_exn (bind_exn (py_getitem parsed (str ''template_recommendation'')) kwargs)
                 (new_TemplateRecommendation E)) (\<lambda>v_template.
     validated (
       Option.bind (validate_str E v_reasoning) (\<lambda>s_reasoning.
       Option.bind (validate_str E v_risk) (\<lambda>s_risk.
       Option.bind (validate_str E v_tier) (\<lambda>s_tier.
       Option.bind (validate_str E v_action) (\<lambda>s_action.
       Some \<lparr> message = msg,
              sentiment = v_sentiment,
              confidence_score = v_confidence,
              reasoning = s_reasoning,
              customer_id = cid,
              agent_id = aid,
              timestamp = ts,
              alert_level = v_alert,
              churn_probability = v_churn,
              revenue_risk = s_risk,
              purchase_intent = v_intent,
              customer_value_tier = s_tier,
              retention_action = s_action,
              cost_prediction = v_cost,
              response_prediction = v_response,
              template_recommendation = v_template \<rparr>)))))))))))))))))"

text \<open>The keys of the reply object that the construction reads.\<close>

definition reply_keys :: "pystr list" where
  "reply_keys =
     [str ''sentiment'', str ''confidence_score'', str ''reasoning'', str ''alert_level'',
      str ''churn_probability'', str ''revenue_risk'', str ''purchase_intent'',
      str ''customer_value_tier'', str ''retention_action'', str ''cost_prediction'',
      str ''response_prediction'', str ''template_recommendation'']"

text \<open>
  The reply text as handed to \<^verbatim>\<open>json.loads\<close>: stripped, and cut down to the regular
  expression's match when there is one.
\<close>

definition clean_response :: "nat \<Rightarrow> nat \<Rightarrow> pystr \<Rightarrow> pystr" where
  "clean_response opn cls content =
     (let response_text = py_strip content
      in case re_search opn cls response_text of
           Some json_match \<Rightarrow> json_match
         | None \<Rightarrow> response_text)"

text \<open>
  \<^verbatim>\<open>analyze_message\<close>, issued as request number \<open>n\<close>. The body of its \<^verbatim>\<open>try\<close> is
  \<open>analyze_message_try\<close>; \<^verbatim>\<open>except Exception\<close> catches whatever it raises, so the
  function returns a record on every path.
\<close>

definition analyze_message_try ::
  "env \<Rightarrow> nat \<Rightarrow> pystr \<Rightarrow> pystr option \<Rightarrow> pystr option \<Rightarrow> pystr option
     \<Rightarrow> exn + SentimentResponse" where
  "analyze_message_try E n msg cid aid ts =
     bind_exn (llm_invoke E n (SinglePrompt msg)) (\<lambda>content.
     bind_exn (json_loads E (clean_response 123 125 content)) (\<lambda>parsed_response.
     new_SentimentResponse E msg cid aid ts parsed_response))"

definition analyze_message ::
  "env \<Rightarrow> nat \<Rightarrow> pystr \<Rightarrow> pystr option \<Rightarrow> pystr option \<Rightarrow> pystr option \<Rightarrow> SentimentResponse" where
  "analyze_message E n msg cid aid ts =
     (case analyze_message_try E n msg cid aid ts of
        Inr sentiment_response \<Rightarrow> sentiment_response
      | Inl e \<Rightarrow>
          create_fallback_response msg cid aid ts (str ''Analysis error: '' @ exn_str E e))"

section \<open>sentiment_analyzer.py: the summary\<close>

text \<open>
  The local variables of the loop of \<^verbatim>\<open>_calculate_summary\<close>. The two count tables are
  dicts with three keys each; \<^verbatim>\<open>table[key] += 1\<close> raises KeyError on any other key.
\<close>

record counters =
  sentiment_counts :: "(pystr \<times> int) list"
  alert_counts :: "(pystr \<times> int) list"
  total_churn_risk :: int
  total_purchase_intent :: int
  high_value_customers :: int
  cost_optimization_savings :: real

definition initial_counters :: counters where
  "initial_counters =
     \<lparr> sentiment_counts = [(str ''positive'', 0), (str ''negative'', 0), (str ''neutral'', 0)],
       alert_counts = [(str ''low'', 0), (str ''medium'', 0), (str ''high'', 0)],
       total_churn_risk = 0,
       total_purchase_intent = 0,
       high_value_customers = 0,
       cost_optimization_savings = 0 \<rparr>"

definition dict_incr :: "(pystr \<times> int) list \<Rightarrow> pystr \<Rightarrow> exn + (pystr \<times> int) list" where
  "dict_incr d k =
     (if k \<in> set (map fst d)
      then Inr (map (\<lambda>(k', v). if k' = k then (k', v + 1) else (k', v)) d)
      else Inl KeyError)"

definition dict_get :: "(pystr \<times> 'a) list \<Rightarrow> pystr \<Rightarrow> exn + 'a" where
  "dict_get d k = (case map_of d k of None \<Rightarrow> Inl KeyError | Some v \<Rightarrow> Inr v)"

text \<open>
  One round of the loop. The cost text loses every rupee sign and is handed to
  \<^verbatim>\<open>float\<close>; the bare \<^verbatim>\<open>except\<close> drops a text that does not parse.
\<close>

definition summary_step :: "env \<Rightarrow> counters \<Rightarrow> SentimentResponse \<Rightarrow> exn + counters" where
  "summary_step E c result =
     bind_exn (dict_incr (sentiment_counts c) (sentiment_value (sentiment result))) (\<lambda>sc.
     bind_exn (dict_incr (alert_counts c) (alert_level result)) (\<lambda>ac.
     Inr \<lparr> sentiment_counts = sc,
           alert_counts = ac,
           total_churn_risk = total_churn_risk c + churn_probability result,
           total_purchase_intent = total_purchase_intent c + purchase_intent result,
           high_value_customers =
             (if customer_value_tier result \<in> set [str ''high_value'', str ''vip'']
              then high_value_customers c + 1 else high_value_customers c),
           cost_optimization_savings =
             (case float_of_str E
                     (filter (\<lambda>ch. ch \<noteq> 8377) (cost_saved (cost_prediction result))) of
                Some cost_saved_value \<Rightarrow> cost_optimization_savings c + cost_saved_value
              | None \<Rightarrow> cost_optimization_savings c) \<rparr>))"

fun summary_loop :: "env \<Rightarrow> counters \<Rightarrow> SentimentResponse list \<Rightarrow> exn + counters" where
  "summary_loop E c [] = Inr c"
| "summary_loop E c (result # rest) =
     bind_exn (summary_step E c result) (\<lambda>c'. summary_loop E c' rest)"

text \<open>\<^verbatim>\<open>round((count / total) * 100, places)\<close>.\<close>

definition percentage :: "int \<Rightarrow> int \<Rightarrow> nat \<Rightarrow> exn + real" where
  "percentage cnt n_total places =
     bind_exn (py_truediv cnt n_total) (\<lambda>q. Inr (py_round (q * 100) places))"

record bulk_result =
  results :: "SentimentResponse list"
  summary :: pyval

text \<open>
  \<^verbatim>\<open>_calculate_summary\<close>: the loop, then the summary dict, its entries evaluated in the
  order they are written. The sentiment distribution holds three percentages; the
  alert distribution is the table of alert counts itself.
\<close>

definition calculate_summary :: "env \<Rightarrow> SentimentResponse list \<Rightarrow> exn + bulk_result" where
  "calculate_summary E rs =
     bind_exn (summary_loop E initial_counters rs) (\<lambda>c.
     let total_messages = int (length rs) in
     bind_exn (dict_get (sentiment_counts c) (str ''positive'')) (\<lambda>n_positive.
     bind_exn (percentage n_positive total_messages 2) (\<lambda>positive_percentage.
     bind_exn (dict_get (sentiment_counts c) (str ''negative'')) (\<lambda>n_negative.
     bind_exn (percentage n_negative total_messages 2) (\<lambda>negative_percentage.
     bind_exn (dict_get (sentiment_counts c) (str ''neutral'')) (\<lambda>n_neutral.
     bind_exn (percentage n_neutral total_messages 2) (\<lambda>neutral_percentage.
     bind_exn (dict_get (alert_counts c) (str ''high'')) (\<lambda>high_priority_count.
     bind_exn (py_fdiv (sum_list (map confidence_score rs)) total_messages) (\<lambda>mean_confidence.
     bind_exn (py_truediv (total_churn_risk c) total_messages) (\<lambda>mean_churn.
     bind_exn (py_truediv (total_purchase_intent c) total_messages) (\<lambda>mean_intent.
     bind_exn (percentage (high_value_customers c) total_messages 1) (\<lambda>high_value_percentage.
     Inr \<lparr> results = rs,
           summary = PDict
             [(str ''total_messages'', PInt total_messages),
              (str ''processing_time'', PStr (str ''Optimized for performance'')),
              (str ''sentiment_distribution'', PDict
                 [(str ''positive_percentage'', PFloat positive_percentage),
                  (str ''negative_percentage'', PFloat negative_percentage),
                  (str ''neutral_percentage'', PFloat neutral_percentage)]),
              (str ''alert_distribution'', PDict (map (\<lambda>(k, v). (k, PInt v)) (alert_counts c))),
              (str ''high_priority_count'', PInt high_priority_count),
              (str ''average_confidence'', PFloat (py_round mean_confidence 2)),
              (str ''business_intelligence'', PDict
                 [(str ''average_churn_risk'', PFloat (py_round mean_churn 1)),
                  (str ''average_purchase_intent'', PFloat (py_round mean_intent 1)),
                  (str ''high_value_customers'', PInt (high_value_customers c)),
                  (str ''high_value_percentage'', PFloat high_value_percentage),
                  (str ''total_cost_savings'',
                     PStr (rupee @ format_2f (cost_optimization_savings c))),
                  (str ''customers_needing_retention'',
                     PInt (int (length (filter (\<lambda>r. retention_action r \<noteq> str ''none'') rs)))),
                  (str ''immediate_response_required'',
                     PInt (int (length (filter
                       (\<lambda>r. py_in (str ''immediate'') (best_response_time (response_prediction r)))
                       rs)))),
                  (str ''marketing_opportunities'',
                     PInt (int (length (filter
                       (\<lambda>r. primary_category (template_recommendation r) = str ''marketing'')
                       rs)))),
                  (str ''service_required'',
                     PInt (int (length (filter
                       (\<lambda>r. primary_category (template_recommendation r) = str ''service'')
                       rs))))])] \<rparr>))))))))))))"

text \<open>
  The lists of records on which \<^verbatim>\<open>_calculate_summary\<close> returns (see
  \<open>calculate_summary_returns\<close> below): the list is not empty, every alert level is a
  key of the alert table, and the two integer averages are within the range of a
  float.
\<close>

definition summary_computable :: "SentimentResponse list \<Rightarrow> bool" where
  "summary_computable rs \<longleftrightarrow>
     rs \<noteq> []
     \<and> (\<forall>r \<in> set rs. alert_level r \<in> {str ''low'', str ''medium'', str ''high''})
     \<and> \<bar>of_int (sum_list (map churn_probability rs)) / of_int (int (length rs))\<bar> < float_limit
     \<and> \<bar>of_int (sum_list (map purchase_intent rs)) / of_int (int (length rs))\<bar> < float_limit"

section \<open>sentiment_analyzer.py: bulk dispatch\<close>

text \<open>
  \<^verbatim>\<open>_analyze_bulk_individual\<close>: one \<^verbatim>\<open>analyze_message\<close> per message, in order, request
  numbers counting up from \<open>n\<close>. \<^verbatim>\<open>analyze_message\<close> returns on every path, so the
  \<^verbatim>\<open>except\<close> of this loop has nothing to catch; the summary is computed after the
  loop, outside any \<^verbatim>\<open>try\<close>.
\<close>

fun individual_results :: "env \<Rightarrow> nat \<Rightarrow> MessageRequest list \<Rightarrow> SentimentResponse list" where
  "individual_results E n [] = []"
| "individual_results E n (m # ms) =
     analyze_message E n (req_message m) (req_customer_id m) (req_agent_id m) (req_timestamp m)
       # individual_results E (Suc n) ms"

definition analyze_bulk_individual :: "env \<Rightarrow> nat \<Rightarrow> MessageRequest list \<Rightarrow> exn + bulk_result" where
  "analyze_bulk_individual E n messages = calculate_summary E (individual_results E n messages)"

text \<open>The batch text: a line \<^verbatim>\<open>Message i: text\<close> per message, \<open>i\<close> counting from 1.\<close>

fun messages_batch :: "nat \<Rightarrow> MessageRequest list \<Rightarrow> pystr" where
  "messages_batch i [] = []"
| "messages_batch i (m # ms) =
     str ''Message '' @ decimal i @ str '': '' @ req_message m @ [10] @ messages_batch (Suc i) ms"

text \<open>
  The loop of \<^verbatim>\<open>_analyze_bulk_optimized\<close> over \<^verbatim>\<open>enumerate(messages)\<close>, at index \<open>i\<close>:
  element \<open>i\<close> of the parsed reply becomes the record of message \<open>i\<close>, and a message
  with no element gets the fallback record. Any exception leaves the loop.
\<close>

fun optimized_results ::
  "env \<Rightarrow> pyval \<Rightarrow> nat \<Rightarrow> MessageRequest list \<Rightarrow> exn + SentimentResponse list" where
  "optimized_results E parsed i [] = Inr []"
| "optimized_results E parsed i (m # ms) =
     bind_exn (py_len parsed) (\<lambda>len.
     bind_exn
       (if i < len
        then bind_exn (py_getitem_int parsed i) (\<lambda>parsed_data.
               new_SentimentResponse E (req_message m) (req_customer_id m) (req_agent_id m)
                 (req_timestamp m) parsed_data)
        else Inr (create_fallback_response (req_message m) (req_customer_id m) (req_agent_id m)
                    (req_timestamp m) (str ''Batch processing incomplete''))) (\<lambda>r.
     bind_exn (optimized_results E parsed (Suc i) ms) (\<lambda>rest. Inr (r # rest))))"

text \<open>
  \<^verbatim>\<open>_analyze_bulk_optimized\<close>: one request (number \<open>n\<close>) for the whole batch; the
  \<^verbatim>\<open>try\<close> spans the request, the parsing, the loop and the summary, and any exception
  in it sends the whole batch to individual processing.
\<close>

definition analyze_bulk_optimized_try ::
  "env \<Rightarrow> nat \<Rightarrow> MessageRequest list \<Rightarrow> exn + bulk_result" where
  "analyze_bulk_optimized_try E n messages =
     bind_exn (llm_invoke E n (BulkPrompt (messages_batch 1 messages))) (\<lambda>content.
     bind_exn (json_loads E (clean_response 91 93 content)) (\<lambda>parsed_responses.
     bind_exn (optimized_results E parsed_responses 0 messages) (\<lambda>rs.
     calculate_summary E rs)))"

definition analyze_bulk_optimized :: "env \<Rightarrow> nat \<Rightarrow> MessageRequest list \<Rightarrow> exn + bulk_result" where
  "analyze_bulk_optimized E n messages =
     (case analyze_bulk_optimized_try E n messages of
        Inr r \<Rightarrow> Inr r
      | Inl e \<Rightarrow> analyze_bulk_individual E (Suc n) messages)"

definition analyze_bulk_messages :: "env \<Rightarrow> nat \<Rightarrow> MessageRequest list \<Rightarrow> exn + bulk_result" where
  "analyze_bulk_messages E n messages0 =
     (let messages = (if 15 < length messages0 then take 15 messages0 else messages0)
      in if length messages \<le> 8 then analyze_bulk_optimized E n messages
         else analyze_bulk_individual E n messages)"

section \<open>main.py\<close>

record BulkMessageRequest =
  bulk_messages :: "MessageRequest list"

text \<open>\<^verbatim>\<open>if not timestamp: timestamp = datetime.now().isoformat()\<close>: None and the empty
  string are both false.\<close>

definition fill_timestamp :: "env \<Rightarrow> nat \<Rightarrow> pystr option \<Rightarrow> pystr option" where
  "fill_timestamp E k ts =
     (case ts of
        None \<Rightarrow> Some (now_isoformat E k)
      | Some t \<Rightarrow> if t = [] then Some (now_isoformat E k) else Some t)"

text \<open>
  \<^verbatim>\<open>POST /analyze-sentiment\<close>. The two checks raise \<^verbatim>\<open>HTTPException(status_code=400)\<close>
  inside the \<^verbatim>\<open>try\<close> whose handler is \<^verbatim>\<open>except Exception\<close>; HTTPException is an
  Exception, so the handler receives it and raises the 500 in its place. \<open>n\<close> is the
  number of completion requests the process has issued so far.
\<close>

definition analyze_sentiment_try :: "env \<Rightarrow> nat \<Rightarrow> MessageRequest \<Rightarrow> exn + SentimentResponse" where
  "analyze_sentiment_try E n request =
     (if req_message request = [] \<or> length (py_strip (req_message request)) = 0
      then Inl (HTTPException 400 (str ''Message cannot be empty''))
      else if 2000 < length (req_message request)
      then Inl (HTTPException 400 (str ''Message too long (max 2000 characters)''))
      else Inr (analyze_message E n (req_message request) (req_customer_id request)
                  (req_agent_id request) (fill_timestamp E 0 (req_timestamp request))))"

definition analyze_sentiment :: "env \<Rightarrow> nat \<Rightarrow> MessageRequest \<Rightarrow> exn + SentimentResponse" where
  "analyze_sentiment E n request =
     (case analyze_sentiment_try E n request of
        Inr result \<Rightarrow> Inr result
      | Inl e \<Rightarrow> Inl (HTTPException 500 (str ''Sentiment analysis failed: '' @ exn_str E e)))"

text \<open>
  \<^verbatim>\<open>POST /analyze-bulk\<close>: the loop that fills timestamps and cuts long messages
  (message number \<open>k\<close> reads the clock as \<open>now_isoformat E k\<close>), then the dispatch.
\<close>

fun prepare_messages :: "env \<Rightarrow> nat \<Rightarrow> MessageRequest list \<Rightarrow> MessageRequest list" where
  "prepare_messages E k [] = []"
| "prepare_messages E k (m # ms) =
     m \<lparr> req_timestamp := fill_timestamp E k (req_timestamp m),
         req_message := (if 2000 < length (req_message m)
                         then take 2000 (req_message m) @ str ''...''
                         else req_message m) \<rparr>
       # prepare_messages E (Suc k) ms"

definition analyze_bulk_sentiment_try ::
  "env \<Rightarrow> nat \<Rightarrow> BulkMessageRequest \<Rightarrow> exn + bulk_result" where
  "analyze_bulk_sentiment_try E n request =
     (if bulk_messages request = [] \<or> length (bulk_messages request) = 0
      then Inl (HTTPException 400 (str ''Messages list cannot be empty''))
      else if 15 < length (bulk_messages request)
      then Inl (HTTPException 400 (str (''Maximum 15 messages allowed per bulk request for ''
             @ ''optimal performance. For larger datasets, use multiple smaller requests.'')))
      else analyze_bulk_messages E n (prepare_messages E 0 (bulk_messages request)))"

definition analyze_bulk_sentiment :: "env \<Rightarrow> nat \<Rightarrow> BulkMessageRequest \<Rightarrow> exn + bulk_result" where
  "analyze_bulk_sentiment E n request =
     (case analyze_bulk_sentiment_try E n request of
        Inr result \<Rightarrow> Inr result
      | Inl e \<Rightarrow> Inl (HTTPException 500 (str ''Bulk sentiment analysis failed: '' @ exn_str E e)))"

text \<open>
  The status of the HTTP response: 200 for a returned value, the status code of a
  raised HTTPException, 500 for any other exception that leaves the handler.
\<close>

fun http_status :: "exn + 'a \<Rightarrow> nat" where
  "http_status (Inr v) = 200"
| "http_status (Inl (HTTPException code detail)) = code"
| "http_status (Inl e) = 500"

section \<open>Stub collaborators for concrete runs\<close>

text \<open>
  A pydantic that accepts a value only when it already has the declared type, which
  every pydantic version does.
\<close>

definition strict_str :: "pyval \<Rightarrow> pystr option" where
  "strict_str v = (case v of PStr s \<Rightarrow> Some s | _ \<Rightarrow> None)"

definition strict_int :: "pyval \<Rightarrow> int option" where
  "strict_int v = (case v of PInt i \<Rightarrow> Some i | _ \<Rightarrow> None)"

definition strict_str_list :: "pyval \<Rightarrow> pystr list option" where
  "strict_str_list v = (case v of PList xs \<Rightarrow> those (map strict_str xs) | _ \<Rightarrow> None)"

text \<open>
  A completion client that answers every single-message prompt with one text and
  every batch prompt with another; \<open>single\<close> and \<open>bulk\<close> are what \<^verbatim>\<open>json.loads\<close> makes
  of the two texts (an object, an array, or a decoding error). \<^verbatim>\<open>float\<close> knows the
  two cost strings of the examples.
\<close>

definition stub_env :: "exn + pyval \<Rightarrow> exn + pyval \<Rightarrow> env" where
  "stub_env single bulk =
     \<lparr> llm_invoke = (\<lambda>n p. case p of SinglePrompt m \<Rightarrow> Inr (str '' {single} '')
                                   | BulkPrompt b \<Rightarrow> Inr (str '' [bulk] '')),
       json_loads = (\<lambda>s. if s = str ''{single}'' then single
                          else if s = str ''[bulk]'' then bulk
                          else Inl JSONDecodeError),
       float_of_str = (\<lambda>s. if s = str ''0.00'' then Some 0
                            else if s = str ''0.88'' then Some (88 / 100)
                            else None),
       int_of_str = (\<lambda>s. None),
       validate_str = strict_str,
       validate_int = strict_int,
       validate_str_list = strict_str_list,
       exn_str = (\<lambda>e. str ''error''),
       now_isoformat = (\<lambda>k. str ''2024-01-01T00:00:00'') \<rparr>"

text \<open>
  A well-formed reply object, with the alert level and the churn probability left
  open.
\<close>

definition reply_object :: "pystr \<Rightarrow> pyval \<Rightarrow> pyval" where
  "reply_object alert churn = PDict
     [(str ''message_index'', PInt 1),
      (str ''sentiment'', PStr (str ''Positive'')),
      (str ''confidence_score'', PFloat (9 / 10)),
      (str ''reasoning'', PStr (str ''praise'')),
      (str ''alert_level'', PStr alert),
      (str ''churn_probability'', churn),
      (str ''revenue_risk'', PStr (str ''safe'')),
      (str ''purchase_intent'', PInt 80),
      (str ''customer_value_tier'', PStr (str ''high_value'')),
      (str ''retention_action'', PStr (str ''none'')),
      (str ''cost_prediction'', PDict
         [(str ''optimal_conversation_type'', PStr (str ''marketing'')),
          (str ''predicted_cost'', PStr (rupee @ str ''0.88'')),
          (str ''cost_saved'', PStr (rupee @ str ''0.00'')),
          (str ''reasoning'', PStr (str ''conversion''))]),
      (str ''response_prediction'', PDict
         [(str ''success_probability'', PInt 90),
          (str ''best_response_time'', PStr (str ''immediate'')),
          (str ''escalation_probability'', PInt 5),
          (str ''resolution_likelihood'', PStr (str ''high''))]),
      (str ''template_recommendation'', PDict
         [(str ''primary_category'', PStr (str ''marketing'')),
          (str ''confidence'', PInt 85),
          (str ''cost_impact'', PStr (rupee @ str ''0.88'')),
          (str ''avoid_categories'', PList [PStr (str ''service'')]),
          (str ''reasoning'', PStr (str ''upsell''))])]"

text \<open>The record the construction makes of \<open>reply_object alert (PInt churn)\<close>.\<close>

definition reply_record ::
  "pystr \<Rightarrow> pystr option \<Rightarrow> pystr option \<Rightarrow> pystr option \<Rightarrow> pystr \<Rightarrow> int \<Rightarrow> SentimentResponse" where
  "reply_record msg cid aid ts alert churn =
     \<lparr> message = msg,
       sentiment = POSITIVE,
       confidence_score = 9 / 10,
       reasoning = str ''praise'',
       customer_id = cid,
       agent_id = aid,
       timestamp = ts,
       alert_level = py_lower alert,
       churn_probability = churn,
       revenue_risk = str ''safe'',
       purchase_intent = 80,
       customer_value_tier = str ''high_value'',
       retention_action = str ''none'',
       cost_prediction =
         \<lparr> optimal_conversation_type = str ''marketing'',
           predicted_cost = rupee @ str ''0.88'',
           cost_saved = rupee @ str ''0.00'',
           cp_reasoning = str ''conversion'' \<rparr>,
       response_prediction =
         \<lparr> success_probability = 90,
           best_response_time = str ''immediate'',
           escalation_probability = 5,
           resolution_likelihood = str ''high'' \<rparr>,
       template_recommendation =
         \<lparr> primary_category = str ''marketing'',
           confidence = 85,
           cost_impact = rupee @ str ''0.88'',
           avoid_categories = [str ''service''],
           tr_reasoning = str ''upsell'' \<rparr> \<rparr>"

definition request :: "pystr \<Rightarrow> MessageRequest" where
  "request msg =
     \<lparr> req_message = msg, req_customer_id = None, req_agent_id = None, req_timestamp = None \<rparr>"

section \<open>Auxiliary facts\<close>

lemma bind_exn_Inl [simp]: "bind_exn (Inl e) f = Inl e"
  by (simp add: bind_exn_def)

lemma bind_exn_Inr [simp]: "bind_exn (Inr x) f = f x"
  by (simp add: bind_exn_def)

lemma bind_exn_eq_Inr: "bind_exn m f = Inr y \<longleftrightarrow> (\<exists>x. m = Inr x \<and> f x = Inr y)"
  by (cases m) simp_all

lemma str_keys_distinct:
  "str ''positive'' \<noteq> str ''negative''" "str ''positive'' \<noteq> str ''neutral''"
  "str ''negative'' \<noteq> str ''neutral''" "str ''negative'' \<noteq> str ''positive''"
  "str ''neutral'' \<noteq> str ''positive''" "str ''neutral'' \<noteq> str ''negative''"
  "str ''low'' \<noteq> str ''medium''" "str ''low'' \<noteq> str ''high''" "str ''medium'' \<noteq> str ''high''"
  "str ''medium'' \<noteq> str ''low''" "str ''high'' \<noteq> str ''low''" "str ''high'' \<noteq> str ''medium''"
  by (simp_all add: str_def)

lemma dict_incr3:
  assumes "k1 \<noteq> k2" "k1 \<noteq> k3" "k2 \<noteq> k3"
  shows "dict_incr [(k1, a), (k2, b), (k3, c)] k =
     (if k = k1 then Inr [(k1, a + 1), (k2, b), (k3, c)]
      else if k = k2 then Inr [(k1, a), (k2, b + 1), (k3, c)]
      else if k = k3 then Inr [(k1, a), (k2, b), (k3, c + 1)]
      else Inl KeyError)"
  using assms by (auto simp: dict_incr_def)

lemma sentiment_incr:
  "dict_incr [(str ''positive'', a1), (str ''negative'', a2), (str ''neutral'', a3)]
       (sentiment_value s) =
     Inr [(str ''positive'', a1 + (if s = POSITIVE then 1 else 0)),
          (str ''negative'', a2 + (if s = NEGATIVE then 1 else 0)),
          (str ''neutral'', a3 + (if s = NEUTRAL then 1 else 0))]"
  by (cases s) (simp_all add: dict_incr3 str_keys_distinct)

lemma alert_incr:
  "dict_incr [(str ''low'', b1), (str ''medium'', b2), (str ''high'', b3)] k =
     (if k \<in> {str ''low'', str ''medium'', str ''high''}
      then Inr [(str ''low'', b1 + (if k = str ''low'' then 1 else 0)),
                (str ''medium'', b2 + (if k = str ''medium'' then 1 else 0)),
                (str ''high'', b3 + (if k = str ''high'' then 1 else 0))]
      else Inl KeyError)"
  by (simp add: dict_incr3 str_keys_distinct)


lemma summary_step_eq:
  assumes "sentiment_counts c = [(str ''positive'', a1), (str ''negative'', a2), (str ''neutral'', a3)]"
    and "alert_counts c = [(str ''low'', b1), (str ''medium'', b2), (str ''high'', b3)]"
  shows "summary_step E c r =
    (if alert_level r \<in> {str ''low'', str ''medium'', str ''high''} then Inr
      \<lparr> sentiment_counts =
          [(str ''positive'', a1 + (if sentiment r = POSITIVE then 1 else 0)),
           (str ''negative'', a2 + (if sentiment r = NEGATIVE then 1 else 0)),
           (str ''neutral'', a3 + (if sentiment r = NEUTRAL then 1 else 0))],
        alert_counts =
          [(str ''low'', b1 + (if alert_level r = str ''low'' then 1 else 0)),
           (str ''medium'', b2 + (if alert_level r = str ''medium'' then 1 else 0)),
           (str ''high'', b3 + (if alert_level r = str ''high'' then 1 else 0))],
        total_churn_risk = total_churn_risk c + churn_probability r,
        total_purchase_intent = total_purchase_intent c + purchase_intent r,
        high_value_customers = high_value_customers c +
          (if customer_value_tier r = str ''high_value'' \<or> customer_value_tier r = str ''vip''
           then 1 else 0),
        cost_optimization_savings = cost_optimization_savings c +
          (case float_of_str E (filter (\<lambda>ch. ch \<noteq> 8377) (cost_saved (cost_prediction r))) of
             Some v \<Rightarrow> v | None \<Rightarrow> 0) \<rparr>
     else Inl KeyError)"
proof -
  have s: "dict_incr (sentiment_counts c) (sentiment_value (sentiment r)) =
     Inr [(str ''positive'', a1 + (if sentiment r = POSITIVE then 1 else 0)),
          (str ''negative'', a2 + (if sentiment r = NEGATIVE then 1 else 0)),
          (str ''neutral'', a3 + (if sentiment r = NEUTRAL then 1 else 0))]"
    unfolding assms(1) by (rule sentiment_incr)
  show ?thesis
  proof (cases "alert_level r \<in> {str ''low'', str ''medium'', str ''high''}")
    case False
    have "dict_incr (alert_counts c) (alert_level r) = Inl KeyError"
      unfolding assms(2) alert_incr using False by (simp only: if_False)
    then show ?thesis
      unfolding summary_step_def s using False by (simp only: bind_exn_Inr bind_exn_Inl if_False)
  next
    case True
    have a: "dict_incr (alert_counts c) (alert_level r) =
      Inr [(str ''low'', b1 + (if alert_level r = str ''low'' then 1 else 0)),
           (str ''medium'', b2 + (if alert_level r = str ''medium'' then 1 else 0)),
           (str ''high'', b3 + (if alert_level r = str ''high'' then 1 else 0))]"
      unfolding assms(2) alert_incr using True by (simp only: if_True)
    have h: "(if customer_value_tier r \<in> set [str ''high_value'', str ''vip'']
           then high_value_customers c + 1 else high_value_customers c)
        = high_value_customers c +
          (if customer_value_tier r = str ''high_value'' \<or> customer_value_tier r = str ''vip''
           then 1 else 0)"
      by simp
    have f: "(case float_of_str E (filter (\<lambda>ch. ch \<noteq> 8377) (cost_saved (cost_prediction r))) of
                Some cost_saved_value \<Rightarrow> cost_optimization_savings c + cost_saved_value
              | None \<Rightarrow> cost_optimization_savings c)
        = cost_optimization_savings c +
          (case float_of_str E (filter (\<lambda>ch. ch \<noteq> 8377) (cost_saved (cost_prediction r))) of
             Some v \<Rightarrow> v | None \<Rightarrow> 0)"
      by (simp split: option.split)
    show ?thesis
      unfolding summary_step_def s a h f using True by (simp only: bind_exn_Inr if_True)
  qed
qed

lemma count_Cons:
  "int (length (filter P (x # xs))) = (if P x then 1 else 0) + int (length (filter P xs))"
  by simp

lemma summary_loop_eq:
  assumes "sentiment_counts c = [(str ''positive'', a1), (str ''negative'', a2), (str ''neutral'', a3)]"
    and "alert_counts c = [(str ''low'', b1), (str ''medium'', b2), (str ''high'', b3)]"
  shows "summary_loop E c rs =
     (if \<forall>r \<in> set rs. alert_level r \<in> {str ''low'', str ''medium'', str ''high''}
      then Inr \<lparr> sentiment_counts =
                   [(str ''positive'', a1 + int (length (filter (\<lambda>r. sentiment r = POSITIVE) rs))),
                    (str ''negative'', a2 + int (length (filter (\<lambda>r. sentiment r = NEGATIVE) rs))),
                    (str ''neutral'', a3 + int (length (filter (\<lambda>r. sentiment r = NEUTRAL) rs)))],
                 alert_counts =
                   [(str ''low'', b1 + int (length (filter (\<lambda>r. alert_level r = str ''low'') rs))),
                    (str ''medium'', b2 + int (length (filter (\<lambda>r. alert_level r = str ''medium'') rs))),
                    (str ''high'', b3 + int (length (filter (\<lambda>r. alert_level r = str ''high'') rs)))],
                 total_churn_risk = total_churn_risk c + sum_list (map churn_probability rs),
                 total_purchase_intent = total_purchase_intent c + sum_list (map purchase_intent rs),
                 high_value_customers = high_value_customers c
                   + int (length (filter (\<lambda>r. customer_value_tier r = str ''high_value''
                                            \<or> customer_value_tier r = str ''vip'') rs)),
                 cost_optimization_savings = cost_optimization_savings c
                   + sum_list (map (\<lambda>r. case float_of_str E
                         (filter (\<lambda>ch. ch \<noteq> 8377) (cost_saved (cost_prediction r))) of
                       Some v \<Rightarrow> v | None \<Rightarrow> 0) rs) \<rparr>
      else Inl KeyError)"
  using assms
proof (induction rs arbitrary: c a1 a2 a3 b1 b2 b3)
  case Nil
  then show ?case by simp
next
  case (Cons r rs)
  note step = summary_step_eq[OF Cons.prems, of E r]
  show ?case
  proof (cases "alert_level r \<in> {str ''low'', str ''medium'', str ''high''}")
    case False
    have "summary_loop E c (r # rs) = Inl KeyError"
      unfolding summary_loop.simps step using False by (simp only: if_False bind_exn_Inl)
    moreover have "\<not> (\<forall>x \<in> set (r # rs). alert_level x \<in> {str ''low'', str ''medium'', str ''high''})"
      using False by simp
    ultimately show ?thesis by (simp only: if_False)
  next
    case True
    have all: "(\<forall>x \<in> set (r # rs). alert_level x \<in> {str ''low'', str ''medium'', str ''high''})
       \<longleftrightarrow> (\<forall>x \<in> set rs. alert_level x \<in> {str ''low'', str ''medium'', str ''high''})"
      using True by simp
    show ?thesis
      unfolding summary_loop.simps step all
      apply (simp only: True if_True bind_exn_Inr)
      apply (subst Cons.IH)
        apply (simp only: counters.simps)
       apply (simp only: counters.simps)
      apply (simp only: counters.simps count_Cons list.map sum_list.Cons add.assoc)
      done
  qed
qed

lemma float_limit_gt: "100 < float_limit"
  by (simp add: float_limit_def)

lemma py_truediv_count:
  assumes "0 \<le> a" "a \<le> b" "b \<noteq> 0"
  shows "py_truediv a b = Inr (of_int a / of_int b)"
proof -
  have "\<bar>real_of_int a / real_of_int b\<bar> \<le> 1"
    using assms by simp
  then have "\<not> float_limit \<le> \<bar>real_of_int a / real_of_int b\<bar>"
    using float_limit_gt by linarith
  then show ?thesis
    using assms(3) by (simp add: py_truediv_def)
qed

lemma percentage_count:
  assumes "0 \<le> a" "a \<le> b" "b \<noteq> 0"
  shows "percentage a b n = Inr (py_round (of_int a / of_int b * 100) n)"
  by (simp add: percentage_def py_truediv_count[OF assms])

lemma initial_loop:
  "summary_loop E initial_counters rs =
     (if \<forall>r \<in> set rs. alert_level r \<in> {str ''low'', str ''medium'', str ''high''}
      then Inr \<lparr> sentiment_counts =
                   [(str ''positive'', int (length (filter (\<lambda>r. sentiment r = POSITIVE) rs))),
                    (str ''negative'', int (length (filter (\<lambda>r. sentiment r = NEGATIVE) rs))),
                    (str ''neutral'', int (length (filter (\<lambda>r. sentiment r = NEUTRAL) rs)))],
                 alert_counts =
                   [(str ''low'', int (length (filter (\<lambda>r. alert_level r = str ''low'') rs))),
                    (str ''medium'', int (length (filter (\<lambda>r. alert_level r = str ''medium'') rs))),
                    (str ''high'', int (length (filter (\<lambda>r. alert_level r = str ''high'') rs)))],
                 total_churn_risk = sum_list (map churn_probability rs),
                 total_purchase_intent = sum_list (map purchase_intent rs),
                 high_value_customers =
                   int (length (filter (\<lambda>r. customer_value_tier r = str ''high_value''
                                            \<or> customer_value_tier r = str ''vip'') rs)),
                 cost_optimization_savings =
                   sum_list (map (\<lambda>r. case float_of_str E
                         (filter (\<lambda>ch. ch \<noteq> 8377) (cost_saved (cost_prediction r))) of
                       Some v \<Rightarrow> v | None \<Rightarrow> 0) rs) \<rparr>
      else Inl KeyError)"
  by (subst summary_loop_eq[of initial_counters 0 0 0 0 0 0])
     (simp_all add: initial_counters_def)

lemma dict_get3:
  assumes "k1 \<noteq> k2" "k1 \<noteq> k3" "k2 \<noteq> k3"
  shows "dict_get [(k1, a), (k2, b), (k3, c)] k1 = Inr a"
    "dict_get [(k1, a), (k2, b), (k3, c)] k2 = Inr b"
    "dict_get [(k1, a), (k2, b), (k3, c)] k3 = Inr c"
  using assms by (auto simp: dict_get_def)

lemma calculate_summary_KeyError:
  assumes "\<not> (\<forall>r \<in> set rs. alert_level r \<in> {str ''low'', str ''medium'', str ''high''})"
  shows "calculate_summary E rs = Inl KeyError"
  unfolding calculate_summary_def initial_loop using assms by (simp only: if_False bind_exn_Inl)

lemma calculate_summary_empty: "calculate_summary E [] = Inl ZeroDivisionError"
  unfolding calculate_summary_def initial_loop
  by (simp add: dict_get3 str_keys_distinct percentage_def py_truediv_def)

lemma calculate_summary_eq:
  assumes ok: "\<forall>r \<in> set rs. alert_level r \<in> {str ''low'', str ''medium'', str ''high''}"
    and ne: "rs \<noteq> []"
  shows "calculate_summary E rs =
     bind_exn (py_truediv (sum_list (map churn_probability rs)) (int (length rs))) (\<lambda>mean_churn.
     bind_exn (py_truediv (sum_list (map purchase_intent rs)) (int (length rs))) (\<lambda>mean_intent.
     Inr \<lparr> results = rs,
           summary = PDict
             [(str ''total_messages'', PInt (int (length rs))),
              (str ''processing_time'', PStr (str ''Optimized for performance'')),
              (str ''sentiment_distribution'', PDict
                 [(str ''positive_percentage'', PFloat (py_round
                     (of_int (int (length (filter (\<lambda>r. sentiment r = POSITIVE) rs)))
                        / of_int (int (length rs)) * 100) 2)),
                  (str ''negative_percentage'', PFloat (py_round
                     (of_int (int (length (filter (\<lambda>r. sentiment r = NEGATIVE) rs)))
                        / of_int (int (length rs)) * 100) 2)),
                  (str ''neutral_percentage'', PFloat (py_round
                     (of_int (int (length (filter (\<lambda>r. sentiment r = NEUTRAL) rs)))
                        / of_int (int (length rs)) * 100) 2))]),
              (str ''alert_distribution'', PDict
                 [(str ''low'', PInt (int (length (filter (\<lambda>r. alert_level r = str ''low'') rs)))),
                  (str ''medium'', PInt (int (length (filter (\<lambda>r. alert_level r = str ''medium'') rs)))),
                  (str ''high'', PInt (int (length (filter (\<lambda>r. alert_level r = str ''high'') rs))))]),
              (str ''high_priority_count'',
                 PInt (int (length (filter (\<lambda>r. alert_level r = str ''high'') rs)))),
              (str ''average_confidence'', PFloat (py_round
                 (sum_list (map confidence_score rs) / of_int (int (length rs))) 2)),
              (str ''business_intelligence'', PDict
                 [(str ''average_churn_risk'', PFloat (py_round mean_churn 1)),
                  (str ''average_purchase_intent'', PFloat (py_round mean_intent 1)),
                  (str ''high_value_customers'',
                     PInt (int (length (filter (\<lambda>r. customer_value_tier r = str ''high_value''
                                            \<or> customer_value_tier r = str ''vip'') rs)))),
                  (str ''high_value_percentage'', PFloat (py_round
                     (of_int (int (length (filter (\<lambda>r. customer_value_tier r = str ''high_value''
                                            \<or> customer_value_tier r = str ''vip'') rs)))
                        / of_int (int (length rs)) * 100) 1)),
                  (str ''total_cost_savings'',
                     PStr (rupee @ format_2f (sum_list (map (\<lambda>r. case float_of_str E
                         (filter (\<lambda>ch. ch \<noteq> 8377) (cost_saved (cost_prediction r))) of
                       Some v \<Rightarrow> v | None \<Rightarrow> 0) rs)))),
                  (str ''customers_needing_retention'',
                     PInt (int (length (filter (\<lambda>r. retention_action r \<noteq> str ''none'') rs)))),
                  (str ''immediate_response_required'',
                     PInt (int (length (filter
                       (\<lambda>r. py_in (str ''immediate'') (best_response_time (response_prediction r)))
                       rs)))),
                  (str ''marketing_opportunities'',
                     PInt (int (length (filter
                       (\<lambda>r. primary_category (template_recommendation r) = str ''marketing'')
                       rs)))),
                  (str ''service_required'',
                     PInt (int (length (filter
                       (\<lambda>r. primary_category (template_recommendation r) = str ''service'')
                       rs))))])] \<rparr>))"
proof -
  have n0: "int (length rs) \<noteq> 0"
    using ne by simp
  have pc: "\<And>P n. percentage (int (length (filter P rs))) (int (length rs)) n =
      Inr (py_round (of_int (int (length (filter P rs))) / of_int (int (length rs)) * 100) n)"
    by (rule percentage_count) (simp_all add: n0 ne)
  have fd: "\<And>x. py_fdiv x (int (length rs)) = Inr (x / of_int (int (length rs)))"
    using n0 by (simp only: py_fdiv_def if_False)
  show ?thesis
    unfolding calculate_summary_def initial_loop
    by (simp only: eqTrueI[OF ok] if_True bind_exn_Inr Let_def counters.simps dict_get3[OF str_keys_distinct(1,2,3)]
          dict_get3[OF str_keys_distinct(7,8,9)] pc fd list.map prod.case)
qed

lemma validated_eq_Inr: "validated v = Inr x \<longleftrightarrow> v = Some x"
  by (cases v) (simp_all add: validated_def)

lemma new_SentimentResponse_Inr:
  assumes "new_SentimentResponse E msg cid aid ts parsed = Inr r"
  shows "message r = msg \<and> customer_id r = cid \<and> agent_id r = aid \<and> timestamp r = ts
    \<and> (\<exists>v s. py_getitem parsed (str ''sentiment'') = Inr v \<and> py_str_lower v = Inr s
            \<and> SentimentType_of s = Inr (sentiment r))
    \<and> (\<exists>v. py_getitem parsed (str ''confidence_score'') = Inr v
            \<and> py_float E v = Inr (confidence_score r))
    \<and> (\<exists>v. py_getitem parsed (str ''reasoning'') = Inr v
            \<and> validate_str E v = Some (reasoning r))
    \<and> (\<exists>v. py_getitem parsed (str ''alert_level'') = Inr v
            \<and> py_str_lower v = Inr (alert_level r))
    \<and> (\<exists>v. py_getitem parsed (str ''churn_probability'') = Inr v
            \<and> py_int E v = Inr (churn_probability r))
    \<and> (\<exists>v. py_getitem parsed (str ''revenue_risk'') = Inr v
            \<and> validate_str E v = Some (revenue_risk r))
    \<and> (\<exists>v. py_getitem parsed (str ''purchase_intent'') = Inr v
            \<and> py_int E v = Inr (purchase_intent r))
    \<and> (\<exists>v. py_getitem parsed (str ''customer_value_tier'') = Inr v
            \<and> validate_str E v = Some (customer_value_tier r))
    \<and> (\<exists>v. py_getitem parsed (str ''retention_action'') = Inr v
            \<and> validate_str E v = Some (retention_action r))
    \<and> (\<exists>v kvs. py_getitem parsed (str ''cost_prediction'') = Inr v \<and> kwargs v = Inr kvs
            \<and> new_CostPrediction E kvs = Inr (cost_prediction r))
    \<and> (\<exists>v kvs. py_getitem parsed (str ''response_prediction'') = Inr v \<and> kwargs v = Inr kvs
            \<and> new_ResponsePrediction E kvs = Inr (response_prediction r))
    \<and> (\<exists>v kvs. py_getitem parsed (str ''template_recommendation'') = Inr v \<and> kwargs v = Inr kvs
            \<and> new_TemplateRecommendation E kvs = Inr (template_recommendation r))"
  using assms unfolding new_SentimentResponse_def
  by (auto simp: bind_exn_eq_Inr validated_eq_Inr Option.bind_eq_Some_conv)

lemma new_ResponsePrediction_Inr:
  assumes "new_ResponsePrediction E kvs = Inr p"
  shows "(\<exists>v. map_of kvs (str ''success_probability'') = Some v
            \<and> validate_int E v = Some (success_probability p))
    \<and> (\<exists>v. map_of kvs (str ''escalation_probability'') = Some v
            \<and> validate_int E v = Some (escalation_probability p))"
  using assms unfolding new_ResponsePrediction_def
  by (auto simp: validated_eq_Inr Option.bind_eq_Some_conv)

lemma analyze_message_cases:
  "(\<exists>e. analyze_message_try E n msg cid aid ts = Inl e
        \<and> analyze_message E n msg cid aid ts
            = create_fallback_response msg cid aid ts (str ''Analysis error: '' @ exn_str E e))
   \<or> analyze_message_try E n msg cid aid ts = Inr (analyze_message E n msg cid aid ts)"
  by (cases "analyze_message_try E n msg cid aid ts") (simp_all add: analyze_message_def)

lemma stub_fields [simp]:
  "json_loads (stub_env s b) (str ''{single}'') = s"
  "json_loads (stub_env s b) (str ''[bulk]'') = b"
  "llm_invoke (stub_env s b) n (SinglePrompt m) = Inr (str '' {single} '')"
  "llm_invoke (stub_env s b) n (BulkPrompt m) = Inr (str '' [bulk] '')"
  "validate_str (stub_env s b) = strict_str"
  "validate_int (stub_env s b) = strict_int"
  "validate_str_list (stub_env s b) = strict_str_list"
  "exn_str (stub_env s b) e = str ''error''"
  "float_of_str (stub_env s b) (str ''0.00'') = Some 0"
  by (simp_all add: stub_env_def str_def)

lemma clean_single [simp]: "clean_response 123 125 (str '' {single} '') = str ''{single}''"
  by (simp add: clean_response_def py_strip_def re_search_def str_def py_isspace_def)

lemma clean_bulk [simp]: "clean_response 91 93 (str '' [bulk] '') = str ''[bulk]''"
  by (simp add: clean_response_def py_strip_def re_search_def str_def py_isspace_def)

lemma new_reply_object:
  "new_SentimentResponse (stub_env s b) msg cid aid ts (reply_object alert (PInt churn))
     = Inr (reply_record msg cid aid ts alert churn)"
  by (simp add: new_SentimentResponse_def reply_object_def reply_record_def str_def
        SentimentType_of_def py_lower_def new_CostPrediction_def new_ResponsePrediction_def
        new_TemplateRecommendation_def validated_def strict_str_def strict_int_def
        strict_str_list_def stub_env_def)

lemma analyze_message_stub_reply:
  "analyze_message (stub_env (Inr (reply_object alert (PInt churn))) b) n msg cid aid ts
     = reply_record msg cid aid ts alert churn"
  by (simp add: analyze_message_def analyze_message_try_def new_reply_object)

lemma py_truediv_Inr_iff:
  "(\<exists>q. py_truediv a b = Inr q) \<longleftrightarrow> b \<noteq> 0 \<and> \<bar>of_int a / of_int b\<bar> < float_limit"
  by (simp add: py_truediv_def not_le)

lemma calculate_summary_results:
  assumes "calculate_summary E rs = Inr out"
  shows "results out = rs"
proof -
  have ok: "\<forall>r \<in> set rs. alert_level r \<in> {str ''low'', str ''medium'', str ''high''}"
    using assms calculate_summary_KeyError[of rs E] by auto
  have ne: "rs \<noteq> []"
    using assms calculate_summary_empty[of E] by auto
  show ?thesis
    using assms unfolding calculate_summary_eq[OF ok ne]
    by (auto simp: bind_exn_eq_Inr)
qed

lemma calculate_summary_returns:
  "(\<exists>out. calculate_summary E rs = Inr out) \<longleftrightarrow> summary_computable rs"
proof (cases "\<forall>r \<in> set rs. alert_level r \<in> {str ''low'', str ''medium'', str ''high''}")
  case False
  then show ?thesis
    using calculate_summary_KeyError[OF False, of E] by (auto simp: summary_computable_def)
next
  case ok: True
  show ?thesis
  proof (cases "rs = []")
    case True
    then show ?thesis
      by (simp add: calculate_summary_empty summary_computable_def)
  next
    case ne: False
    have "(\<exists>out. calculate_summary E rs = Inr out) \<longleftrightarrow>
        (\<exists>q. py_truediv (sum_list (map churn_probability rs)) (int (length rs)) = Inr q)
        \<and> (\<exists>q. py_truediv (sum_list (map purchase_intent rs)) (int (length rs)) = Inr q)"
      unfolding calculate_summary_eq[OF ok ne] by (auto simp: bind_exn_eq_Inr)
    also have "\<dots> \<longleftrightarrow> summary_computable rs"
      unfolding py_truediv_Inr_iff summary_computable_def using ok ne by simp
    finally show ?thesis .
  qed
qed

lemma summary_lookup:
  "py_getitem (PDict [(str ''total_messages'', v1), (str ''processing_time'', v2),
       (str ''sentiment_distribution'', v3), (str ''alert_distribution'', v4),
       (str ''high_priority_count'', v5), (str ''average_confidence'', v6),
       (str ''business_intelligence'', v7)]) (str ''sentiment_distribution'') = Inr v3"
  "py_getitem (PDict [(str ''total_messages'', v1), (str ''processing_time'', v2),
       (str ''sentiment_distribution'', v3), (str ''alert_distribution'', v4),
       (str ''high_priority_count'', v5), (str ''average_confidence'', v6),
       (str ''business_intelligence'', v7)]) (str ''alert_distribution'') = Inr v4"
  "py_getitem (PDict [(str ''total_messages'', v1), (str ''processing_time'', v2),
       (str ''sentiment_distribution'', v3), (str ''alert_distribution'', v4),
       (str ''high_priority_count'', v5), (str ''average_confidence'', v6),
       (str ''business_intelligence'', v7)]) (str ''business_intelligence'') = Inr v7"
  by (simp_all add: str_def)

lemma business_lookup:
  "py_getitem (PDict [(str ''average_churn_risk'', v1), (str ''average_purchase_intent'', v2),
       (str ''high_value_customers'', v3), (str ''high_value_percentage'', v4),
       (str ''total_cost_savings'', v5), (str ''customers_needing_retention'', v6),
       (str ''immediate_response_required'', v7), (str ''marketing_opportunities'', v8),
       (str ''service_required'', v9)]) (str ''average_churn_risk'') = Inr v1"
  "py_getitem (PDict [(str ''average_churn_risk'', v1), (str ''average_purchase_intent'', v2),
       (str ''high_value_customers'', v3), (str ''high_value_percentage'', v4),
       (str ''total_cost_savings'', v5), (str ''customers_needing_retention'', v6),
       (str ''immediate_response_required'', v7), (str ''marketing_opportunities'', v8),
       (str ''service_required'', v9)]) (str ''average_purchase_intent'') = Inr v2"
  "py_getitem (PDict [(str ''average_churn_risk'', v1), (str ''average_purchase_intent'', v2),
       (str ''high_value_customers'', v3), (str ''high_value_percentage'', v4),
       (str ''total_cost_savings'', v5), (str ''customers_needing_retention'', v6),
       (str ''immediate_response_required'', v7), (str ''marketing_opportunities'', v8),
       (str ''service_required'', v9)]) (str ''high_value_percentage'') = Inr v4"
  "py_getitem (PDict [(str ''average_churn_risk'', v1), (str ''average_purchase_intent'', v2),
       (str ''high_value_customers'', v3), (str ''high_value_percentage'', v4),
       (str ''total_cost_savings'', v5), (str ''customers_needing_retention'', v6),
       (str ''immediate_response_required'', v7), (str ''marketing_opportunities'', v8),
       (str ''service_required'', v9)]) (str ''total_cost_savings'') = Inr v5"
  by (simp_all add: str_def)

lemma round_half_even_error: "\<bar>of_int (round_half_even y) - y\<bar> \<le> 1 / 2"
proof -
  have "of_int \<lfloor>y\<rfloor> \<le> y" "y < of_int \<lfloor>y\<rfloor> + 1"
    by linarith+
  then show ?thesis
    unfolding round_half_even_def Let_def by (auto simp: abs_le_iff)
qed

lemma py_round_error: "\<bar>py_round x 2 - x\<bar> \<le> 1 / 200"
proof -
  have "\<bar>of_int (round_half_even (x * 100)) - x * 100\<bar> \<le> 1 / 2"
    by (rule round_half_even_error)
  then show ?thesis
    unfolding py_round_def by (simp add: abs_le_iff field_simps)
qed

lemma sentiment_partition:
  "int (length (filter (\<lambda>r. sentiment r = POSITIVE) rs))
     + int (length (filter (\<lambda>r. sentiment r = NEGATIVE) rs))
     + int (length (filter (\<lambda>r. sentiment r = NEUTRAL) rs))
   = int (length rs)"
proof (induction rs)
  case Nil
  then show ?case by simp
next
  case (Cons r rs)
  then show ?case by (cases "sentiment r") simp_all
qed

lemma alert_partition:
  assumes "\<forall>r \<in> set rs. alert_level r \<in> {str ''low'', str ''medium'', str ''high''}"
  shows "int (length (filter (\<lambda>r. alert_level r = str ''low'') rs))
     + int (length (filter (\<lambda>r. alert_level r = str ''medium'') rs))
     + int (length (filter (\<lambda>r. alert_level r = str ''high'') rs))
   = int (length rs)"
  using assms
proof (induction rs)
  case Nil
  then show ?case by simp
next
  case (Cons r rs)
  then have "alert_level r = str ''low'' \<or> alert_level r = str ''medium''
      \<or> alert_level r = str ''high''"
    by simp
  moreover from Cons have
    "int (length (filter (\<lambda>r. alert_level r = str ''low'') rs))
     + int (length (filter (\<lambda>r. alert_level r = str ''medium'') rs))
     + int (length (filter (\<lambda>r. alert_level r = str ''high'') rs))
   = int (length rs)"
    by simp
  ultimately show ?case
    using str_keys_distinct(7-12) by (elim disjE) simp_all
qed

lemma percentages_sum:
  assumes "a + b + c = n" "n \<noteq> (0::int)"
  shows "\<bar>py_round (of_int a / of_int n * 100) 2 + py_round (of_int b / of_int n * 100) 2
          + py_round (of_int c / of_int n * 100) 2 - 100\<bar> \<le> 1 / 10"
proof -
  have "real_of_int a + real_of_int b + real_of_int c = real_of_int n"
    using assms(1) by (metis of_int_add)
  then have s: "real_of_int a / real_of_int n * 100 + real_of_int b / real_of_int n * 100
      + real_of_int c / real_of_int n * 100 = 100"
    using assms(2) by (simp add: field_simps)
  note e = py_round_error[of "real_of_int a / real_of_int n * 100"]
    py_round_error[of "real_of_int b / real_of_int n * 100"]
    py_round_error[of "real_of_int c / real_of_int n * 100"]
  show ?thesis
    using e s by linarith
qed

lemma strip_rupee:
  "filter (\<lambda>ch. ch \<noteq> 8377) rupee = []"
  "filter (\<lambda>ch. ch \<noteq> 8377) (str ''0.00'') = str ''0.00''"
  by (simp_all add: rupee_def str_def)

lemma py_round_values:
  "py_round 0 n = 0" "py_round 100 2 = 100" "py_round 50 1 = 50" "py_round 25 1 = 25"
  by (simp_all add: py_round_def round_half_even_def)

lemma tier_neq: "str ''medium_value'' \<noteq> str ''high_value''" "str ''medium_value'' \<noteq> str ''vip''"
  by (simp_all add: str_def)

lemma rhe0: "round_half_even 0 = 0"
  by (simp add: round_half_even_def)

lemma decimal0: "decimal 0 = [48]"
  by (simp add: decimal.simps)

lemma format_2f_zero: "format_2f 0 = str ''0.00''"
  by (simp add: format_2f_def rhe0 decimal0 str_def)

lemma fallback_fields [simp]:
  "sentiment (create_fallback_response msg cid aid ts err) = NEUTRAL"
  "alert_level (create_fallback_response msg cid aid ts err) = str ''medium''"
  "churn_probability (create_fallback_response msg cid aid ts err) = 50"
  "purchase_intent (create_fallback_response msg cid aid ts err) = 25"
  "customer_value_tier (create_fallback_response msg cid aid ts err) = str ''medium_value''"
  "cost_saved (cost_prediction (create_fallback_response msg cid aid ts err)) = rupee @ str ''0.00''"
  "confidence_score (create_fallback_response msg cid aid ts err) = 0"
  by (simp_all add: create_fallback_response_def)

lemma summary_sections:
  assumes ok: "\<forall>r \<in> set rs. alert_level r \<in> {str ''low'', str ''medium'', str ''high''}"
    and ne: "rs \<noteq> []"
    and q1: "py_truediv (sum_list (map churn_probability rs)) (int (length rs)) = Inr q1"
    and q2: "py_truediv (sum_list (map purchase_intent rs)) (int (length rs)) = Inr q2"
  shows "\<exists>out bi. calculate_summary E rs = Inr out
    \<and> results out = rs
    \<and> py_getitem (summary out) (str ''sentiment_distribution'') = Inr (PDict
         [(str ''positive_percentage'', PFloat (py_round
             (of_int (int (length (filter (\<lambda>r. sentiment r = POSITIVE) rs)))
                / of_int (int (length rs)) * 100) 2)),
          (str ''negative_percentage'', PFloat (py_round
             (of_int (int (length (filter (\<lambda>r. sentiment r = NEGATIVE) rs)))
                / of_int (int (length rs)) * 100) 2)),
          (str ''neutral_percentage'', PFloat (py_round
             (of_int (int (length (filter (\<lambda>r. sentiment r = NEUTRAL) rs)))
                / of_int (int (length rs)) * 100) 2))])
    \<and> py_getitem (summary out) (str ''alert_distribution'') = Inr (PDict
         [(str ''low'', PInt (int (length (filter (\<lambda>r. alert_level r = str ''low'') rs)))),
          (str ''medium'', PInt (int (length (filter (\<lambda>r. alert_level r = str ''medium'') rs)))),
          (str ''high'', PInt (int (length (filter (\<lambda>r. alert_level r = str ''high'') rs))))])
    \<and> py_getitem (summary out) (str ''business_intelligence'') = Inr bi
    \<and> py_getitem bi (str ''average_churn_risk'') = Inr (PFloat (py_round q1 1))
    \<and> py_getitem bi (str ''average_purchase_intent'') = Inr (PFloat (py_round q2 1))
    \<and> py_getitem bi (str ''high_value_percentage'') = Inr (PFloat (py_round
         (of_int (int (length (filter (\<lambda>r. customer_value_tier r = str ''high_value''
                                            \<or> customer_value_tier r = str ''vip'') rs)))
            / of_int (int (length rs)) * 100) 1))
    \<and> py_getitem bi (str ''total_cost_savings'') = Inr (PStr (rupee @ format_2f
         (sum_list (map (\<lambda>r. case float_of_str E
                         (filter (\<lambda>ch. ch \<noteq> 8377) (cost_saved (cost_prediction r))) of
                       Some v \<Rightarrow> v | None \<Rightarrow> 0) rs))))"
  unfolding calculate_summary_eq[OF ok ne] q1 q2
  apply (simp only: bind_exn_Inr)
  apply (rule exI, rule exI)
  apply (intro conjI)
          apply (rule refl)
         apply (simp only: bulk_result.simps)
        apply (simp only: bulk_result.simps summary_lookup)
       apply (simp only: bulk_result.simps summary_lookup)
      apply (simp only: bulk_result.simps summary_lookup)
     apply (simp only: business_lookup)
    apply (simp only: business_lookup)
   apply (simp only: business_lookup)
  apply (simp only: business_lookup)
  done

lemma fallback_fields2 [simp]:
  "retention_action (create_fallback_response msg cid aid ts err) = str ''follow_up''"
  "best_response_time (response_prediction (create_fallback_response msg cid aid ts err))
     = str ''within_1_hour''"
  "primary_category (template_recommendation (create_fallback_response msg cid aid ts err))
     = str ''service''"
  by (simp_all add: create_fallback_response_def)

lemma fallback_texts:
  "str ''follow_up'' \<noteq> str ''none''" "str ''service'' \<noteq> str ''marketing''"
  "\<not> py_in (str ''immediate'') (str ''within_1_hour'')"
  by (simp_all add: str_def)

lemma summary_computable_fallback:
  "summary_computable [create_fallback_response msg cid aid ts err]"
  using float_limit_gt by (simp add: summary_computable_def)

lemma individual_results_length [simp]: "length (individual_results E n ms) = length ms"
  by (induction ms arbitrary: n) simp_all

lemma individual_results_nth:
  "i < length ms \<Longrightarrow>
   individual_results E n ms ! i =
     analyze_message E (n + i) (req_message (ms ! i)) (req_customer_id (ms ! i))
       (req_agent_id (ms ! i)) (req_timestamp (ms ! i))"
proof (induction ms arbitrary: n i)
  case Nil
  then show ?case by simp
next
  case (Cons m ms)
  show ?case
  proof (cases i)
    case 0
    then show ?thesis by simp
  next
    case (Suc j)
    with Cons.prems have "j < length ms" by simp
    from Cons.IH[OF this, of "Suc n"] Suc show ?thesis by simp
  qed
qed

lemma analyze_message_fields:
  "message (analyze_message E n msg cid aid ts) = msg"
  "customer_id (analyze_message E n msg cid aid ts) = cid"
  "agent_id (analyze_message E n msg cid aid ts) = aid"
  "timestamp (analyze_message E n msg cid aid ts) = ts"
proof -
  have "message (analyze_message E n msg cid aid ts) = msg
      \<and> customer_id (analyze_message E n msg cid aid ts) = cid
      \<and> agent_id (analyze_message E n msg cid aid ts) = aid
      \<and> timestamp (analyze_message E n msg cid aid ts) = ts"
  proof (cases "analyze_message_try E n msg cid aid ts")
    case (Inl e)
    then show ?thesis
      by (simp add: analyze_message_def create_fallback_response_def)
  next
    case (Inr r)
    then obtain parsed where "new_SentimentResponse E msg cid aid ts parsed = Inr r"
      by (auto simp: analyze_message_try_def bind_exn_eq_Inr)
    from new_SentimentResponse_Inr[OF this] Inr show ?thesis
      by (simp add: analyze_message_def)
  qed
  then show "message (analyze_message E n msg cid aid ts) = msg"
    "customer_id (analyze_message E n msg cid aid ts) = cid"
    "agent_id (analyze_message E n msg cid aid ts) = aid"
    "timestamp (analyze_message E n msg cid aid ts) = ts"
    by simp_all
qed

lemma analyze_message_frame:
  assumes "k \<noteq> n"
  shows "analyze_message (E\<lparr>llm_invoke := (llm_invoke E)(k := f)\<rparr>) n msg cid aid ts
       = analyze_message E n msg cid aid ts"
proof -
  have py: "py_float (E\<lparr>llm_invoke := (llm_invoke E)(k := f)\<rparr>) = py_float E"
    "py_int (E\<lparr>llm_invoke := (llm_invoke E)(k := f)\<rparr>) = py_int E"
  proof -
    show "py_float (E\<lparr>llm_invoke := (llm_invoke E)(k := f)\<rparr>) = py_float E"
    proof
      fix v show "py_float (E\<lparr>llm_invoke := (llm_invoke E)(k := f)\<rparr>) v = py_float E v"
        by (cases v) simp_all
    qed
    show "py_int (E\<lparr>llm_invoke := (llm_invoke E)(k := f)\<rparr>) = py_int E"
    proof
      fix v show "py_int (E\<lparr>llm_invoke := (llm_invoke E)(k := f)\<rparr>) v = py_int E v"
        by (cases v) simp_all
    qed
  qed
  have sub: "new_CostPrediction (E\<lparr>llm_invoke := (llm_invoke E)(k := f)\<rparr>)
        = new_CostPrediction E"
      "new_ResponsePrediction (E\<lparr>llm_invoke := (llm_invoke E)(k := f)\<rparr>)
        = new_ResponsePrediction E"
      "new_TemplateRecommendation (E\<lparr>llm_invoke := (llm_invoke E)(k := f)\<rparr>)
        = new_TemplateRecommendation E"
    by (intro ext, simp add: new_CostPrediction_def new_ResponsePrediction_def
          new_TemplateRecommendation_def)+
  have new: "new_SentimentResponse (E\<lparr>llm_invoke := (llm_invoke E)(k := f)\<rparr>)
      = new_SentimentResponse E"
    by (intro ext) (simp add: new_SentimentResponse_def py sub)
  show ?thesis
    using assms by (simp add: analyze_message_def analyze_message_try_def new split: sum.splits)
qed

lemma optimized_results_Inr:
  assumes "optimized_results E parsed i ms = Inr rs"
  shows "length rs = length ms
    \<and> (\<forall>j < length ms. \<exists>len. py_len parsed = Inr len
          \<and> (if i + j < len
              then \<exists>d. py_getitem_int parsed (i + j) = Inr d
                     \<and> new_SentimentResponse E (req_message (ms ! j)) (req_customer_id (ms ! j))
                          (req_agent_id (ms ! j)) (req_timestamp (ms ! j)) d = Inr (rs ! j)
              else rs ! j = create_fallback_response (req_message (ms ! j))
                     (req_customer_id (ms ! j)) (req_agent_id (ms ! j)) (req_timestamp (ms ! j))
                     (str ''Batch processing incomplete'')))"
  using assms
proof (induction ms arbitrary: i rs)
  case Nil
  then show ?case by simp
next
  case (Cons m ms)
  from Cons.prems obtain len r rest where
    len: "py_len parsed = Inr len" and
    r: "(if i < len
        then bind_exn (py_getitem_int parsed i) (\<lambda>parsed_data.
               new_SentimentResponse E (req_message m) (req_customer_id m) (req_agent_id m)
                 (req_timestamp m) parsed_data)
        else Inr (create_fallback_response (req_message m) (req_customer_id m) (req_agent_id m)
                    (req_timestamp m) (str ''Batch processing incomplete''))) = Inr r" and
    rest: "optimized_results E parsed (Suc i) ms = Inr rest" and
    rs: "rs = r # rest"
    by (auto simp: bind_exn_eq_Inr)
  note IH = Cons.IH[OF rest]
  have head: "if i < len
      then \<exists>d. py_getitem_int parsed i = Inr d
             \<and> new_SentimentResponse E (req_message m) (req_customer_id m)
                  (req_agent_id m) (req_timestamp m) d = Inr r
      else r = create_fallback_response (req_message m)
             (req_customer_id m) (req_agent_id m) (req_timestamp m)
             (str ''Batch processing incomplete'')"
    using r by (auto simp: bind_exn_eq_Inr split: if_splits)
  show ?case
  proof (intro conjI allI impI)
    show "length rs = length (m # ms)"
      using IH rs by simp
  next
    fix j assume j: "j < length (m # ms)"
    show "\<exists>len. py_len parsed = Inr len
          \<and> (if i + j < len
              then \<exists>d. py_getitem_int parsed (i + j) = Inr d
                     \<and> new_SentimentResponse E (req_message ((m # ms) ! j))
                          (req_customer_id ((m # ms) ! j))
                          (req_agent_id ((m # ms) ! j)) (req_timestamp ((m # ms) ! j)) d
                        = Inr (rs ! j)
              else rs ! j = create_fallback_response (req_message ((m # ms) ! j))
                     (req_customer_id ((m # ms) ! j)) (req_agent_id ((m # ms) ! j))
                     (req_timestamp ((m # ms) ! j))
                     (str ''Batch processing incomplete''))"
    proof (cases j)
      case 0
      then show ?thesis
        using len head rs by simp
    next
      case (Suc j')
      with j have "j' < length ms" by simp
      with IH have "\<exists>len. py_len parsed = Inr len
          \<and> (if Suc i + j' < len
              then \<exists>d. py_getitem_int parsed (Suc i + j') = Inr d
                     \<and> new_SentimentResponse E (req_message (ms ! j')) (req_customer_id (ms ! j'))
                          (req_agent_id (ms ! j')) (req_timestamp (ms ! j')) d = Inr (rest ! j')
              else rest ! j' = create_fallback_response (req_message (ms ! j'))
                     (req_customer_id (ms ! j')) (req_agent_id (ms ! j')) (req_timestamp (ms ! j'))
                     (str ''Batch processing incomplete''))"
        by blast
      moreover have "i + j = Suc i + j'" "(m # ms) ! j = ms ! j'" "rs ! j = rest ! j'"
        using Suc rs by simp_all
      ultimately show ?thesis
        by (simp only:)
    qed
  qed
qed

lemma optimized_results_list:
  assumes "\<forall>j < length ms. i + j < length arr \<longrightarrow>
      new_SentimentResponse E (req_message (ms ! j)) (req_customer_id (ms ! j))
        (req_agent_id (ms ! j)) (req_timestamp (ms ! j)) (arr ! (i + j)) = Inr (built (i + j))"
  shows "optimized_results E (PList arr) i ms =
     Inr (map (\<lambda>j. if i + j < length arr then built (i + j)
                    else create_fallback_response (req_message (ms ! j))
                           (req_customer_id (ms ! j)) (req_agent_id (ms ! j))
                           (req_timestamp (ms ! j)) (str ''Batch processing incomplete''))
            [0..<length ms])"
  using assms
proof (induction ms arbitrary: i)
  case Nil
  then show ?case by simp
next
  case (Cons m ms)
  have head: "i < length arr \<longrightarrow>
      new_SentimentResponse E (req_message m) (req_customer_id m)
        (req_agent_id m) (req_timestamp m) (arr ! i) = Inr (built i)"
    using Cons.prems[rule_format, of 0] by simp
  have tail: "\<forall>j < length ms. Suc i + j < length arr \<longrightarrow>
      new_SentimentResponse E (req_message (ms ! j)) (req_customer_id (ms ! j))
        (req_agent_id (ms ! j)) (req_timestamp (ms ! j)) (arr ! (Suc i + j))
      = Inr (built (Suc i + j))"
  proof (intro allI impI)
    fix j assume "j < length ms" "Suc i + j < length arr"
    then show "new_SentimentResponse E (req_message (ms ! j)) (req_customer_id (ms ! j))
        (req_agent_id (ms ! j)) (req_timestamp (ms ! j)) (arr ! (Suc i + j))
      = Inr (built (Suc i + j))"
      using Cons.prems[rule_format, of "Suc j"] by simp
  qed
  show ?case
    using head by (simp add: Cons.IH[OF tail] map_upt_Suc del: upt_Suc)
qed

lemma message_index_not_read: "str ''message_index'' \<notin> set reply_keys"
  by (simp add: reply_keys_def str_def)

lemma new_SentimentResponse_reads_reply_keys:
  assumes "\<forall>k \<in> set reply_keys. map_of kvs k = map_of kvs' k"
  shows "new_SentimentResponse E msg cid aid ts (PDict kvs)
       = new_SentimentResponse E msg cid aid ts (PDict kvs')"
  using assms by (simp add: new_SentimentResponse_def reply_keys_def)

lemma request_fields [simp]:
  "req_message (request m) = m" "req_customer_id (request m) = None"
  "req_agent_id (request m) = None" "req_timestamp (request m) = None"
  by (simp_all add: request_def)

lemma dispatch_results:
  assumes le: "length msgs \<le> 15" and ret: "analyze_bulk_messages E n msgs = Inr out"
  shows "length (results out) = length msgs
    \<and> (\<forall>i < length msgs.
          message (results out ! i) = req_message (msgs ! i)
        \<and> customer_id (results out ! i) = req_customer_id (msgs ! i)
        \<and> agent_id (results out ! i) = req_agent_id (msgs ! i)
        \<and> timestamp (results out ! i) = req_timestamp (msgs ! i))"
proof -
  have ind: "length (results out) = length msgs
    \<and> (\<forall>i < length msgs.
          message (results out ! i) = req_message (msgs ! i)
        \<and> customer_id (results out ! i) = req_customer_id (msgs ! i)
        \<and> agent_id (results out ! i) = req_agent_id (msgs ! i)
        \<and> timestamp (results out ! i) = req_timestamp (msgs ! i))"
    if "analyze_bulk_individual E k msgs = Inr out" for k
  proof -
    from that have "results out = individual_results E k msgs"
      by (simp add: analyze_bulk_individual_def calculate_summary_results)
    then show ?thesis
      by (simp add: individual_results_nth analyze_message_fields)
  qed
  from le ret have disp: "(length msgs \<le> 8 \<and> analyze_bulk_optimized E n msgs = Inr out)
      \<or> analyze_bulk_individual E n msgs = Inr out"
    by (auto simp: analyze_bulk_messages_def Let_def split: if_splits)
  show ?thesis
  proof (cases "analyze_bulk_individual E n msgs = Inr out")
    case True
    then show ?thesis by (rule ind)
  next
    case False
    with disp have opt: "analyze_bulk_optimized E n msgs = Inr out"
      by simp
    show ?thesis
    proof (cases "analyze_bulk_optimized_try E n msgs")
      case (Inl e)
      with opt have "analyze_bulk_individual E (Suc n) msgs = Inr out"
        by (simp add: analyze_bulk_optimized_def)
      then show ?thesis by (rule ind)
    next
      case (Inr r)
      with opt have r: "r = out"
        by (simp add: analyze_bulk_optimized_def)
      from Inr obtain parsed rs where
        loop: "optimized_results E parsed 0 msgs = Inr rs" and
        sm: "calculate_summary E rs = Inr r"
        by (auto simp: analyze_bulk_optimized_try_def bind_exn_eq_Inr)
      from sm r have res: "results out = rs"
        by (simp add: calculate_summary_results)
      note inv = optimized_results_Inr[OF loop]
      have "message (rs ! i) = req_message (msgs ! i)
        \<and> customer_id (rs ! i) = req_customer_id (msgs ! i)
        \<and> agent_id (rs ! i) = req_agent_id (msgs ! i)
        \<and> timestamp (rs ! i) = req_timestamp (msgs ! i)" if "i < length msgs" for i
      proof -
        from inv that obtain len where
          c: "if 0 + i < len
              then \<exists>d. py_getitem_int parsed (0 + i) = Inr d
                     \<and> new_SentimentResponse E (req_message (msgs ! i)) (req_customer_id (msgs ! i))
                          (req_agent_id (msgs ! i)) (req_timestamp (msgs ! i)) d = Inr (rs ! i)
              else rs ! i = create_fallback_response (req_message (msgs ! i))
                     (req_customer_id (msgs ! i)) (req_agent_id (msgs ! i))
                     (req_timestamp (msgs ! i)) (str ''Batch processing incomplete'')"
          by blast
        show ?thesis
        proof (cases "0 + i < len")
          case True
          with c obtain d where
            "new_SentimentResponse E (req_message (msgs ! i)) (req_customer_id (msgs ! i))
               (req_agent_id (msgs ! i)) (req_timestamp (msgs ! i)) d = Inr (rs ! i)"
            by auto
          from new_SentimentResponse_Inr[OF this] show ?thesis
            by simp
        next
          case False
          with c have "rs ! i = create_fallback_response (req_message (msgs ! i))
                     (req_customer_id (msgs ! i)) (req_agent_id (msgs ! i))
                     (req_timestamp (msgs ! i)) (str ''Batch processing incomplete'')"
            by simp
          then show ?thesis
            by (simp add: create_fallback_response_def)
        qed
      qed
      with inv res show ?thesis
        by simp
    qed
  qed
qed

lemma stub_individual:
  "individual_results (stub_env (Inr (reply_object alert (PInt churn))) b) n ms
     = map (\<lambda>m. reply_record (req_message m) (req_customer_id m) (req_agent_id m)
                   (req_timestamp m) alert churn) ms"
  by (induction ms arbitrary: n) (simp_all add: analyze_message_stub_reply)

lemma reply_record_fields [simp]:
  "alert_level (reply_record msg cid aid ts alert churn) = py_lower alert"
  "churn_probability (reply_record msg cid aid ts alert churn) = churn"
  "purchase_intent (reply_record msg cid aid ts alert churn) = 80"
  "message (reply_record msg cid aid ts alert churn) = msg"
  by (simp_all add: reply_record_def)

lemma lower_examples:
  "py_lower (str ''low'') = str ''low''"
  "py_lower (str ''critical'') = str ''critical''"
  "py_lower (str ''CRITICAL'') = str ''critical''"
  "str ''critical'' \<notin> {str ''low'', str ''medium'', str ''high''}"
  by (simp_all add: py_lower_def str_def)

lemma summary_computable_replies:
  assumes "ms \<noteq> []" "0 \<le> churn" "churn \<le> 100"
  shows "summary_computable
     (map (\<lambda>m. reply_record (req_message m) (req_customer_id m) (req_agent_id m)
                   (req_timestamp m) (str ''low'') churn) ms)"
proof -
  have n: "0 < real (length ms)"
    using assms(1) by simp
  have c: "sum_list (map churn_probability
      (map (\<lambda>m. reply_record (req_message m) (req_customer_id m) (req_agent_id m)
                   (req_timestamp m) (str ''low'') churn) ms)) = int (length ms) * churn"
    by (induction ms) (simp_all add: algebra_simps)
  have i: "sum_list (map purchase_intent
      (map (\<lambda>m. reply_record (req_message m) (req_customer_id m) (req_agent_id m)
                   (req_timestamp m) (str ''low'') churn) ms)) = int (length ms) * 80"
    by (induction ms) (simp_all add: algebra_simps)
  have "\<bar>real_of_int churn\<bar> < float_limit"
    using assms(2,3) float_limit_gt by linarith
  moreover have "\<bar>80 :: real\<bar> < float_limit"
    using float_limit_gt by linarith
  ultimately show ?thesis
    unfolding summary_computable_def c i using assms(1) n
    by (simp add: lower_examples)
qed

lemma individual_KeyError:
  assumes "r \<in> set (individual_results E n msgs)"
    and "alert_level r \<notin> {str ''low'', str ''medium'', str ''high''}"
  shows "analyze_bulk_individual E n msgs = Inl KeyError"
  unfolding analyze_bulk_individual_def
proof (rule calculate_summary_KeyError)
  show "\<not> (\<forall>r\<in>set (individual_results E n msgs).
      alert_level r \<in> {str ''low'', str ''medium'', str ''high''})"
    using assms by (intro notI) (drule bspec, assumption, erule notE, assumption)
qed

lemma stub_critical_individual:
  "analyze_bulk_individual (stub_env (Inr (reply_object (str ''critical'') (PInt 10))) b) n
     (m # ms) = Inl KeyError"
proof (rule individual_KeyError)
  show "reply_record (req_message m) (req_customer_id m) (req_agent_id m) (req_timestamp m)
      (str ''critical'') 10
    \<in> set (individual_results (stub_env (Inr (reply_object (str ''critical'') (PInt 10))) b) n
         (m # ms))"
    unfolding stub_individual by simp
  show "alert_level (reply_record (req_message m) (req_customer_id m) (req_agent_id m)
      (req_timestamp m) (str ''critical'') 10) \<notin> {str ''low'', str ''medium'', str ''high''}"
    unfolding reply_record_fields lower_examples(2) by (rule lower_examples(4))
qed

lemma py_strip_eq_Nil: "py_strip s = [] \<longleftrightarrow> (\<forall>c \<in> set s. py_isspace c)"
proof
  assume "py_strip s = []"
  then have a: "\<forall>c \<in> set (dropWhile py_isspace s). py_isspace c"
    by (simp add: py_strip_def)
  have "dropWhile py_isspace s = []"
  proof (rule ccontr)
    assume ne: "dropWhile py_isspace s \<noteq> []"
    then have "hd (dropWhile py_isspace s) \<in> set (dropWhile py_isspace s)"
      by (rule hd_in_set)
    with a have "py_isspace (hd (dropWhile py_isspace s))"
      by (rule bspec)
    moreover have "\<not> py_isspace (hd (dropWhile py_isspace s))"
      using ne by (rule hd_dropWhile)
    ultimately show False
      by (rule notE[rotated])
  qed
  then show "\<forall>c \<in> set s. py_isspace c"
    by simp
next
  assume "\<forall>c \<in> set s. py_isspace c"
  then have "dropWhile py_isspace s = []"
    by simp
  then show "py_strip s = []"
    by (simp only: py_strip_def rev.simps dropWhile.simps)
qed

lemma strip_xs: "py_strip (replicate k 120) = [] \<longleftrightarrow> k = 0"
  by (simp add: py_strip_eq_Nil py_isspace_def)

section \<open>Properties\<close>

text \<open>
  C1, evaluated where the code departs from it: an empty message and a message of
  2001 characters raise the 400 inside the \<^verbatim>\<open>try\<close>, and the client gets the 500 of the
  handler, whose detail quotes the 400; so does an empty bulk request and one of 16
  messages. A message of 2000 characters is answered with 200. Neither endpoint
  ever answers 400.
\<close>

theorem validation_errors_reach_client_as_500:
  "analyze_sentiment E n (request [])
     = Inl (HTTPException 500 (str ''Sentiment analysis failed: ''
              @ exn_str E (HTTPException 400 (str ''Message cannot be empty''))))
   \<and> analyze_sentiment E n (request (replicate 2001 120))
     = Inl (HTTPException 500 (str ''Sentiment analysis failed: ''
              @ exn_str E (HTTPException 400 (str ''Message too long (max 2000 characters)''))))
   \<and> http_status (analyze_sentiment E n (request (replicate 2000 120))) = 200
   \<and> analyze_bulk_sentiment E n \<lparr>bulk_messages = []\<rparr>
     = Inl (HTTPException 500 (str ''Bulk sentiment analysis failed: ''
              @ exn_str E (HTTPException 400 (str ''Messages list cannot be empty''))))
   \<and> http_status (analyze_bulk_sentiment E n
        \<lparr>bulk_messages = replicate 16 (request (str ''hello''))\<rparr>) = 500
   \<and> http_status (analyze_sentiment E n single_request) \<noteq> 400
   \<and> http_status (analyze_bulk_sentiment E n bulk_request) \<noteq> 400"
proof (intro conjI)
  show "analyze_sentiment E n (request [])
     = Inl (HTTPException 500 (str ''Sentiment analysis failed: ''
              @ exn_str E (HTTPException 400 (str ''Message cannot be empty''))))"
    by (simp add: analyze_sentiment_def analyze_sentiment_try_def)
  show "analyze_sentiment E n (request (replicate 2001 120))
     = Inl (HTTPException 500 (str ''Sentiment analysis failed: ''
              @ exn_str E (HTTPException 400 (str ''Message too long (max 2000 characters)''))))"
    by (simp add: analyze_sentiment_def analyze_sentiment_try_def strip_xs)
  show "http_status (analyze_sentiment E n (request (replicate 2000 120))) = 200"
    by (simp add: analyze_sentiment_def analyze_sentiment_try_def strip_xs)
  show "analyze_bulk_sentiment E n \<lparr>bulk_messages = []\<rparr>
     = Inl (HTTPException 500 (str ''Bulk sentiment analysis failed: ''
              @ exn_str E (HTTPException 400 (str ''Messages list cannot be empty''))))"
    by (simp add: analyze_bulk_sentiment_def analyze_bulk_sentiment_try_def)
  show "http_status (analyze_bulk_sentiment E n
        \<lparr>bulk_messages = replicate 16 (request (str ''hello''))\<rparr>) = 500"
    by (simp add: analyze_bulk_sentiment_def analyze_bulk_sentiment_try_def)
  show "http_status (analyze_sentiment E n single_request) \<noteq> 400"
    by (cases "analyze_sentiment_try E n single_request") (simp_all add: analyze_sentiment_def)
  show "http_status (analyze_bulk_sentiment E n bulk_request) \<noteq> 400"
    by (cases "analyze_bulk_sentiment_try E n bulk_request")
       (simp_all add: analyze_bulk_sentiment_def)
qed















text \<open>
  C7: the fallback record constructor returns, for every message, correlation fields
  and error text, a record with sentiment neutral, confidence score 0.0, alert level
  medium, churn probability 50, revenue risk at_risk, purchase intent 25, customer
  value tier medium_value, retention action follow_up, a cost prediction of the
  "service" conversation type with both costs equal to the rupee sign followed by
  0.00, a response prediction with success probability 50 and best response time
  within_1_hour, and a template recommendation of "service" whose avoid_categories
  contains "marketing". The message and the correlation fields are the arguments.
\<close>

theorem fallback_record_values:
  "sentiment (create_fallback_response msg cid aid ts err) = NEUTRAL
   \<and> confidence_score (create_fallback_response msg cid aid ts err) = 0
   \<and> alert_level (create_fallback_response msg cid aid ts err) = str ''medium''
   \<and> churn_probability (create_fallback_response msg cid aid ts err) = 50
   \<and> revenue_risk (create_fallback_response msg cid aid ts err) = str ''at_risk''
   \<and> purchase_intent (create_fallback_response msg cid aid ts err) = 25
   \<and> customer_value_tier (create_fallback_response msg cid aid ts err) = str ''medium_value''
   \<and> retention_action (create_fallback_response msg cid aid ts err) = str ''follow_up''
   \<and> optimal_conversation_type (cost_prediction (create_fallback_response msg cid aid ts err))
       = str ''service''
   \<and> predicted_cost (cost_prediction (create_fallback_response msg cid aid ts err))
       = rupee @ str ''0.00''
   \<and> cost_saved (cost_prediction (create_fallback_response msg cid aid ts err))
       = rupee @ str ''0.00''
   \<and> success_probability (response_prediction (create_fallback_response msg cid aid ts err)) = 50
   \<and> best_response_time (response_prediction (create_fallback_response msg cid aid ts err))
       = str ''within_1_hour''
   \<and> primary_category (template_recommendation (create_fallback_response msg cid aid ts err))
       = str ''service''
   \<and> str ''marketing''
       \<in> set (avoid_categories (template_recommendation (create_fallback_response msg cid aid ts err)))
   \<and> message (create_fallback_response msg cid aid ts err) = msg
   \<and> customer_id (create_fallback_response msg cid aid ts err) = cid
   \<and> agent_id (create_fallback_response msg cid aid ts err) = aid
   \<and> timestamp (create_fallback_response msg cid aid ts err) = ts"
  by (simp add: create_fallback_response_def)

text \<open>
  C8: the summary of three fallback records (of any messages, correlation fields and
  error texts) is computed without an exception, and in it the positive and the
  negative percentage are 0, the neutral percentage is 100, average_churn_risk is
  50.0, average_purchase_intent is 25.0, total_cost_savings is the rupee sign
  followed by 0.00, and high_value_percentage is 0. The one fact used about Python
  is that \<^verbatim>\<open>float("0.00")\<close> is 0.0.
\<close>

theorem summary_of_three_fallbacks:
  assumes "float_of_str E (str ''0.00'') = Some 0"
  shows "\<exists>out bi.
      calculate_summary E
        [create_fallback_response m1 c1 a1 t1 e1, create_fallback_response m2 c2 a2 t2 e2,
         create_fallback_response m3 c3 a3 t3 e3] = Inr out
    \<and> py_getitem (summary out) (str ''sentiment_distribution'') = Inr (PDict
         [(str ''positive_percentage'', PFloat 0),
          (str ''negative_percentage'', PFloat 0),
          (str ''neutral_percentage'', PFloat 100)])
    \<and> py_getitem (summary out) (str ''business_intelligence'') = Inr bi
    \<and> py_getitem bi (str ''average_churn_risk'') = Inr (PFloat 50)
    \<and> py_getitem bi (str ''average_purchase_intent'') = Inr (PFloat 25)
    \<and> py_getitem bi (str ''total_cost_savings'') = Inr (PStr (rupee @ str ''0.00''))
    \<and> py_getitem bi (str ''high_value_percentage'') = Inr (PFloat 0)"
proof -
  let ?rs = "[create_fallback_response m1 c1 a1 t1 e1, create_fallback_response m2 c2 a2 t2 e2,
         create_fallback_response m3 c3 a3 t3 e3]"
  have ok: "\<forall>r \<in> set ?rs. alert_level r \<in> {str ''low'', str ''medium'', str ''high''}"
    by simp
  have ne: "?rs \<noteq> []"
    by simp
  have churn: "py_truediv (sum_list (map churn_probability ?rs)) (int (length ?rs)) = Inr 50"
    using float_limit_gt by (simp add: py_truediv_def)
  have intent: "py_truediv (sum_list (map purchase_intent ?rs)) (int (length ?rs)) = Inr 25"
    using float_limit_gt by (simp add: py_truediv_def)
  have v1: "py_round (of_int (int (length (filter (\<lambda>r. sentiment r = POSITIVE) ?rs)))
                / of_int (int (length ?rs)) * 100) 2 = 0"
    by (simp add: py_round_values)
  have v2: "py_round (of_int (int (length (filter (\<lambda>r. sentiment r = NEGATIVE) ?rs)))
                / of_int (int (length ?rs)) * 100) 2 = 0"
    by (simp add: py_round_values)
  have v3: "py_round (of_int (int (length (filter (\<lambda>r. sentiment r = NEUTRAL) ?rs)))
                / of_int (int (length ?rs)) * 100) 2 = 100"
    by (simp add: py_round_values)
  have v4: "py_round (of_int (int (length (filter (\<lambda>r. customer_value_tier r = str ''high_value''
                                            \<or> customer_value_tier r = str ''vip'') ?rs)))
            / of_int (int (length ?rs)) * 100) 1 = 0"
    by (simp add: py_round_values tier_neq)
  have v5: "format_2f (sum_list (map (\<lambda>r. case float_of_str E
                         (filter (\<lambda>ch. ch \<noteq> 8377) (cost_saved (cost_prediction r))) of
                       Some v \<Rightarrow> v | None \<Rightarrow> 0) ?rs)) = str ''0.00''"
    by (simp add: strip_rupee assms format_2f_zero)
  note s = summary_sections[OF ok ne churn intent, of E, unfolded v1 v2 v3 v4 v5 py_round_values]
  then show ?thesis
    by blast
qed

text \<open>A run of C8 with the stub collaborators.\<close>

theorem summary_of_three_fallbacks_witness:
  "float_of_str (stub_env (Inl JSONDecodeError) (Inl JSONDecodeError)) (str ''0.00'') = Some 0
   \<and> (\<exists>out bi.
      calculate_summary (stub_env (Inl JSONDecodeError) (Inl JSONDecodeError))
        [create_fallback_response (str ''a'') None None None (str ''x''),
         create_fallback_response (str ''b'') None None None (str ''y''),
         create_fallback_response (str ''c'') None None None (str ''z'')] = Inr out
    \<and> py_getitem (summary out) (str ''sentiment_distribution'') = Inr (PDict
         [(str ''positive_percentage'', PFloat 0),
          (str ''negative_percentage'', PFloat 0),
          (str ''neutral_percentage'', PFloat 100)])
    \<and> py_getitem (summary out) (str ''business_intelligence'') = Inr bi
    \<and> py_getitem bi (str ''average_churn_risk'') = Inr (PFloat 50)
    \<and> py_getitem bi (str ''average_purchase_intent'') = Inr (PFloat 25)
    \<and> py_getitem bi (str ''total_cost_savings'') = Inr (PStr (rupee @ str ''0.00''))
    \<and> py_getitem bi (str ''high_value_percentage'') = Inr (PFloat 0))"
proof -
  have h: "float_of_str (stub_env (Inl JSONDecodeError) (Inl JSONDecodeError)) (str ''0.00'')
      = Some 0"
    by simp
  show ?thesis
    using h summary_of_three_fallbacks[OF h] by blast
qed

text \<open>
  C9: when the completion client has replied and the single-message parsing of the
  reply fails, \<^verbatim>\<open>analyze_message\<close> returns the fallback record for the message, its
  reasoning carrying the text of the exception, and raises nothing. The failures
  are: \<^verbatim>\<open>json.loads\<close> rejects the text (no JSON object in it, or malformed JSON); a
  key the construction reads is missing, or the parsed value is no dict; the
  sentiment is not a string or not one of the three enum values; the alert level
  is not a string; \<^verbatim>\<open>float\<close> or \<^verbatim>\<open>int\<close> rejects a numeric field; a nested object is
  no dict or its model does not validate; a text field does not validate as a
  string.
\<close>

theorem analyze_message_parse_failure:
  assumes reply: "llm_invoke E n (SinglePrompt msg) = Inr content"
    and fails:
      "(\<exists>e. json_loads E (clean_response 123 125 content) = Inl e)
       \<or> (\<exists>parsed. json_loads E (clean_response 123 125 content) = Inr parsed \<and>
            ((\<exists>k e. k \<in> set reply_keys \<and> py_getitem parsed k = Inl e)
           \<or> (\<exists>v e. py_getitem parsed (str ''sentiment'') = Inr v
                  \<and> bind_exn (py_str_lower v) SentimentType_of = Inl e)
           \<or> (\<exists>v e. py_getitem parsed (str ''alert_level'') = Inr v \<and> py_str_lower v = Inl e)
           \<or> (\<exists>v e. py_getitem parsed (str ''confidence_score'') = Inr v \<and> py_float E v = Inl e)
           \<or> (\<exists>v e. py_getitem parsed (str ''churn_probability'') = Inr v \<and> py_int E v = Inl e)
           \<or> (\<exists>v e. py_getitem parsed (str ''purchase_intent'') = Inr v \<and> py_int E v = Inl e)
           \<or> (\<exists>v e. py_getitem parsed (str ''cost_prediction'') = Inr v
                  \<and> bind_exn (kwargs v) (new_CostPrediction E) = Inl e)
           \<or> (\<exists>v e. py_getitem parsed (str ''response_prediction'') = Inr v
                  \<and> bind_exn (kwargs v) (new_ResponsePrediction E) = Inl e)
           \<or> (\<exists>v e. py_getitem parsed (str ''template_recommendation'') = Inr v
                  \<and> bind_exn (kwargs v) (new_TemplateRecommendation E) = Inl e)
           \<or> (\<exists>k v. k \<in> set [str ''reasoning'', str ''revenue_risk'',
                                 str ''customer_value_tier'', str ''retention_action'']
                  \<and> py_getitem parsed k = Inr v \<and> validate_str E v = None)))"
  shows "\<exists>e. analyze_message E n msg cid aid ts
           = create_fallback_response msg cid aid ts (str ''Analysis error: '' @ exn_str E e)"
proof -
  have "\<exists>e. analyze_message_try E n msg cid aid ts = Inl e"
  proof (cases "analyze_message_try E n msg cid aid ts")
    case (Inl e)
    then show ?thesis by blast
  next
    case (Inr r)
    then obtain parsed where
      p: "json_loads E (clean_response 123 125 content) = Inr parsed" and
      b: "new_SentimentResponse E msg cid aid ts parsed = Inr r"
      using reply by (auto simp: analyze_message_try_def bind_exn_eq_Inr)
    note inv = new_SentimentResponse_Inr[OF b]
    from fails p inv have False
      by (auto simp: reply_keys_def)
    then show ?thesis ..
  qed
  then show ?thesis
    by (auto simp: analyze_message_def)
qed

text \<open>A run of C9: the reply is not JSON, and the result is the fallback record.\<close>

theorem analyze_message_parse_failure_witness:
  "llm_invoke (stub_env (Inl JSONDecodeError) (Inl JSONDecodeError)) 0 (SinglePrompt (str ''hello''))
     = Inr (str '' {single} '')
   \<and> json_loads (stub_env (Inl JSONDecodeError) (Inl JSONDecodeError))
        (clean_response 123 125 (str '' {single} '')) = Inl JSONDecodeError
   \<and> (\<exists>e. analyze_message (stub_env (Inl JSONDecodeError) (Inl JSONDecodeError)) 0
              (str ''hello'') None None None
           = create_fallback_response (str ''hello'') None None None
               (str ''Analysis error: ''
                @ exn_str (stub_env (Inl JSONDecodeError) (Inl JSONDecodeError)) e))"
proof -
  have r: "llm_invoke (stub_env (Inl JSONDecodeError) (Inl JSONDecodeError)) 0
             (SinglePrompt (str ''hello'')) = Inr (str '' {single} '')"
    by simp
  have j: "json_loads (stub_env (Inl JSONDecodeError) (Inl JSONDecodeError))
        (clean_response 123 125 (str '' {single} '')) = Inl JSONDecodeError"
    by simp
  from j have f: "(\<exists>e. json_loads (stub_env (Inl JSONDecodeError) (Inl JSONDecodeError))
        (clean_response 123 125 (str '' {single} '')) = Inl e)"
    by blast
  show ?thesis
    using r j analyze_message_parse_failure[OF r disjI1, OF f, of None None None] by blast
qed




end
